theory Spec2Isabelle
  imports Complex_Main "HOL-Library.Word"
begin

section \<open>JavaScript values\<close>

text \<open>
  Objects (array buffers, document and page proxies, callback functions, blobs, request
  options, drawing contexts) are compared by identity, so an object is its reference.
  A promise may be rejected with any value; what \<open>Byblos.tsx\<close> does with a
  rejection value depends on its truthiness only, so the primitive values are kept apart.
\<close>

type_synonym ref = nat

datatype js_value =
    JUndefined
  | JNull
  | JBool bool
  | JNumber int
  | JNaN
  | JString string
  | JObject ref

fun truthy :: "js_value \<Rightarrow> bool" where
  "truthy JUndefined = False"
| "truthy JNull = False"
| "truthy (JBool b) = b"
| "truthy (JNumber n) = (n \<noteq> 0)"
| "truthy JNaN = False"
| "truthy (JString s) = (s \<noteq> [])"
| "truthy (JObject r) = True"

text \<open>The operators \<^verbatim>\<open>a && b\<close>, \<^verbatim>\<open>a || b\<close> and \<^verbatim>\<open>a ?? b\<close>.\<close>

definition js_and :: "js_value \<Rightarrow> js_value \<Rightarrow> js_value" where
  "js_and a b = (if truthy a then b else a)"

definition js_or :: "js_value \<Rightarrow> js_value \<Rightarrow> js_value" where
  "js_or a b = (if truthy a then a else b)"

definition nullish :: "'a option \<Rightarrow> 'a \<Rightarrow> 'a" where
  "nullish a b = (case a of None \<Rightarrow> b | Some v \<Rightarrow> v)"

section \<open>Stage results\<close>

text \<open>
  Modelled from the spec: the result type of \<^verbatim>\<open>./use-fetch\<close>, which is imported by
  \<open>Byblos.tsx\<close> and not among the sources. The spec gives a stage result as
  \<open>idle | pending | success(data) | failure(error)\<close>; \<open>Byblos.tsx\<close> reads it through
  the fields \<^verbatim>\<open>status\<close> and \<^verbatim>\<open>data\<close>.
\<close>

datatype StageResult = Idle | Pending | Success ref | Failure js_value

text \<open>
  A published result is a JavaScript object, and the dependency arrays of \<open>Byblos.tsx\<close>
  compare it by identity. Every publication is a new object; it is named here by the run
  token under which it was published together with its content. A run publishes one
  pending object and at most one settled object, so two names are equal exactly when the
  objects are the same.
\<close>

record fetch_result =
  gen :: nat
  res :: StageResult

definition status :: "fetch_result \<Rightarrow> string" where
  "status r = (case res r of Idle \<Rightarrow> ''idle'' | Pending \<Rightarrow> ''pending''
     | Success v \<Rightarrow> ''success'' | Failure e \<Rightarrow> ''failure'')"

definition data :: "fetch_result \<Rightarrow> js_value" where
  "data r = (case res r of Idle \<Rightarrow> JUndefined | Pending \<Rightarrow> JUndefined
     | Success v \<Rightarrow> JObject v | Failure e \<Rightarrow> e)"

section \<open>The stage runner\<close>

text \<open>
  What a producer call amounts to: an operation of an external collaborator that is now
  in flight (the transport or the decoder), or the deferred signal.
\<close>

datatype source_type = TypeUrl | TypeBlob

datatype source_value = StringValue string | BlobValue ref

datatype request =
    Fetch source_value "ref option"
  | NewResponse source_value
  | GetDocument js_value
  | GetPage js_value int

datatype action = Request request | Suspend

text \<open>
  Modelled from the spec: \<^verbatim>\<open>suspend\<close> of \<^verbatim>\<open>./suspend\<close>, not among the sources. The spec
  calls it the deferred signal: the sentinel a producer returns to say that an upstream
  dependency is not ready.
\<close>

definition suspend :: action where
  "suspend = Suspend"

text \<open>How the environment settles an operation in flight.\<close>

datatype outcome = Resolved ref | Rejected js_value

definition settled :: "outcome \<Rightarrow> StageResult" where
  "settled out = (case out of Resolved v \<Rightarrow> Success v | Rejected e \<Rightarrow> Failure e)"

text \<open>
  Modelled from the spec: the runner \<^verbatim>\<open>useFetch\<close> of \<^verbatim>\<open>./use-fetch\<close>, not among the
  sources. Section 4.1 of the spec: on the first call, or when the key differs from the
  key observed before, the runner mints a new run token, sets the state to pending and
  invokes the producer; a producer here is asynchronous, so it never returns the deferred
  signal synchronously. When a run completes with the deferred signal the state is left
  unchanged; when it completes with a value or an error and its token is still current,
  the state becomes success or failure; a completion with a stale token is discarded.
  At most one result is applied per key generation.
\<close>

record 'k runner =
  key :: "'k option"
  token :: nat
  state :: StageResult
  inflight :: "action option"

text \<open>
  Modelled from the spec: the runner before its first call; the spec creates a stage idle.
\<close>

definition init_runner :: "'k runner" where
  "init_runner = \<lparr>key = None, token = 0, state = Idle, inflight = None\<rparr>"

text \<open>
  Modelled from the spec: \<open>run(producer, key)\<close> of section 4.1. The producer is invoked
  only when the key is new; what it then does is passed as \<open>produced\<close>.
\<close>

definition run :: "action \<Rightarrow> 'k \<Rightarrow> 'k runner \<Rightarrow> 'k runner" where
  "run produced k r =
     (if key r = Some k then r
      else r\<lparr>key := Some k, token := token r + 1, state := Pending,
             inflight := Some produced\<rparr>)"

text \<open>
  Modelled from the spec: the completion of the run that holds token \<open>t\<close>
  (section 4.1, on producer completion). A run that returned the deferred signal
  completes with it, whatever the environment does.
\<close>

definition completion :: "nat \<Rightarrow> outcome \<Rightarrow> 'k runner \<Rightarrow> 'k runner" where
  "completion t out r =
     (if t \<noteq> token r then r
      else case inflight r of
             None \<Rightarrow> r
           | Some Suspend \<Rightarrow> r
           | Some (Request q) \<Rightarrow> r\<lparr>state := settled out, inflight := None\<rparr>)"

text \<open>Modelled from the spec: the stage result a runner publishes, as a result object.\<close>

definition published :: "'k runner \<Rightarrow> fetch_result" where
  "published r = \<lparr>gen = token r, res = state r\<rparr>"

text \<open>A trace of one runner: key observations and completions of runs, in any order.\<close>

datatype 'k runner_event = Observe action 'k | Complete nat outcome

fun runner_step :: "'k runner_event \<Rightarrow> 'k runner \<Rightarrow> 'k runner" where
  "runner_step (Observe a k) r = run a k r"
| "runner_step (Complete t out) r = completion t out r"

fun runner_trace :: "'k runner_event list \<Rightarrow> 'k runner \<Rightarrow> 'k runner" where
  "runner_trace [] r = r"
| "runner_trace (e # es) r = runner_trace es (runner_step e r)"

section \<open>The component\<close>

text \<open>
  The props of \<open>Byblos\<close>. The source is a URL string or a blob; the fetch options and
  the callbacks are objects or undefined, the page index and the scale numbers or
  undefined. The props \<^verbatim>\<open>className\<close>, \<^verbatim>\<open>loadingFallback\<close> and \<^verbatim>\<open>errorFallback\<close> only
  carry content that is handed to React, and the forwarded ref only receives the canvas
  element; they are left out, and what a render pass returns is recorded as the branch
  that returned.
\<close>

record props =
  ptype :: source_type
  pvalue :: source_value
  fetchOptions :: "ref option"
  page :: "int option"
  scale :: "real option"
  onLoading :: "ref option"
  onSuccess :: "ref option"
  onFailure :: "ref option"
  onDocumentSuccess :: "ref option"
  onPageSuccess :: "ref option"

subsection \<open>Producers of the three stages\<close>

text \<open>
  The three functions passed to \<^verbatim>\<open>useFetch\<close>. A producer either starts an operation of
  the transport or of the decoder, or returns \<^verbatim>\<open>suspend()\<close>. The helpers \<^verbatim>\<open>wrap\<close> and
  \<^verbatim>\<open>pdfPromiseToES6\<close> hand the promise of the operation on; a request stands for that
  promise. The bytes producer fetches the URL and reads the response, or reads the blob;
  either way it settles once, with the array buffer or with the error. The assignment of
  the worker source in the document producer is read by no stage and is left out.
\<close>

definition bytes_producer :: "props \<Rightarrow> action" where
  "bytes_producer p =
     (if ptype p = TypeUrl then Request (Fetch (pvalue p) (fetchOptions p))
      else Request (NewResponse (pvalue p)))"

definition document_producer :: "fetch_result \<Rightarrow> action" where
  "document_producer bufferResult =
     (if status bufferResult = ''success'' then Request (GetDocument (data bufferResult))
      else suspend)"

definition page_producer :: "fetch_result \<Rightarrow> int option \<Rightarrow> action" where
  "page_producer documentResult pg =
     (if status documentResult = ''success''
      then Request (GetPage (data documentResult) (nullish pg 1))
      else suspend)"

subsection \<open>Derived values of a render pass\<close>

definition loading :: "fetch_result \<Rightarrow> fetch_result \<Rightarrow> fetch_result \<Rightarrow> bool" where
  "loading bufferResult documentResult pageResult \<longleftrightarrow>
     status bufferResult = ''pending''
     \<or> status documentResult = ''pending''
     \<or> status pageResult = ''pending''"

definition success :: "fetch_result \<Rightarrow> bool" where
  "success pageResult \<longleftrightarrow> status pageResult = ''success''"

definition error :: "fetch_result \<Rightarrow> fetch_result \<Rightarrow> fetch_result \<Rightarrow> js_value" where
  "error bufferResult documentResult pageResult =
     js_or (js_or
       (js_and (JBool (status bufferResult = ''failure'')) (data bufferResult))
       (js_and (JBool (status documentResult = ''failure'')) (data documentResult)))
       (js_and (JBool (status pageResult = ''failure'')) (data pageResult))"

text \<open>The three return statements of the component.\<close>

datatype view = LoadingFallback | ErrorFallback | CanvasElement

definition rendered :: "bool \<Rightarrow> js_value \<Rightarrow> view" where
  "rendered ld err =
     (if ld then LoadingFallback
      else if truthy err then ErrorFallback
      else CanvasElement)"

subsection \<open>Callbacks and effects\<close>

text \<open>
  A callback prop is a function object or undefined. An invocation is recorded with the
  identity of the function that was called and the argument it was given.
\<close>

datatype call =
    OnDocumentSuccess ref js_value
  | OnPageSuccess ref js_value
  | OnLoading ref
  | OnSuccess ref
  | OnFailure ref js_value

text \<open>
  \<^verbatim>\<open>useEffect(f, deps)\<close> of React: \<^verbatim>\<open>f\<close> runs after the first render pass, and after
  every later pass in which some member of \<^verbatim>\<open>deps\<close> is not the same value
  (\<^verbatim>\<open>Object.is\<close>) as in the pass before. The hook remembers the last dependencies.
\<close>

definition effect_due :: "'d option \<Rightarrow> 'd \<Rightarrow> bool" where
  "effect_due prev deps \<longleftrightarrow> prev \<noteq> Some deps"

definition document_success_effect :: "fetch_result \<Rightarrow> ref option \<Rightarrow> call list" where
  "document_success_effect documentResult cb =
     (case cb of
        None \<Rightarrow> []
      | Some f \<Rightarrow> if status documentResult = ''success''
                  then [OnDocumentSuccess f (data documentResult)] else [])"

definition page_success_effect :: "fetch_result \<Rightarrow> ref option \<Rightarrow> call list" where
  "page_success_effect pageResult cb =
     (case cb of
        None \<Rightarrow> []
      | Some f \<Rightarrow> if status pageResult = ''success''
                  then [OnPageSuccess f (data pageResult)] else [])"

definition loading_effect :: "bool \<Rightarrow> ref option \<Rightarrow> call list" where
  "loading_effect ld cb =
     (case cb of None \<Rightarrow> [] | Some f \<Rightarrow> if ld then [OnLoading f] else [])"

definition success_effect :: "bool \<Rightarrow> ref option \<Rightarrow> call list" where
  "success_effect sc cb =
     (case cb of None \<Rightarrow> [] | Some f \<Rightarrow> if sc then [OnSuccess f] else [])"

definition failure_effect :: "js_value \<Rightarrow> ref option \<Rightarrow> call list" where
  "failure_effect err cb =
     (case cb of None \<Rightarrow> [] | Some f \<Rightarrow> if truthy err then [OnFailure f err] else [])"

subsection \<open>The canvas and the render effect\<close>

text \<open>
  A viewport of the decoder library: its height and width are numbers, in general not
  whole (a page of 595.28 by 841.89 points at scale 1), and finite: they are reals here.
\<close>

record viewport =
  vheight :: real
  vwidth :: real

text \<open>
  The canvas element. Its \<^verbatim>\<open>height\<close> and \<^verbatim>\<open>width\<close> are attributes of type
  \<^verbatim>\<open>unsigned long\<close> that reflect content attributes limited to the non-negative
  integers up to 2147483647, which are the values of a 31-bit word; the defaults are 150
  and 300. Further, what \<^verbatim>\<open>getContext('2d')\<close> returns for the element (null when it
  cannot give a 2D context), and the draw calls issued on it so far. A draw call is
  recorded with the size the canvas had when the call was made.
\<close>

record draw =
  drawPage :: js_value
  drawContext :: ref
  drawViewport :: viewport
  surfaceHeight :: "31 word"
  surfaceWidth :: "31 word"

record canvas =
  height :: "31 word"
  width :: "31 word"
  context2d :: "ref option"
  draws :: "draw list"

text \<open>
  Assigning a number to \<^verbatim>\<open>canvas.height\<close> or \<^verbatim>\<open>canvas.width\<close>. The number is first
  converted to \<^verbatim>\<open>unsigned long\<close>: its fraction is dropped (towards zero) and the
  result taken modulo \<open>2 ^ 32\<close>. The attribute then stores the value if it is at most
  2147483647, and its default otherwise.
\<close>

definition integer_part :: "real \<Rightarrow> int" where
  "integer_part x = (if 0 \<le> x then \<lfloor>x\<rfloor> else - \<lfloor>- x\<rfloor>)"

definition to_unsigned_long :: "real \<Rightarrow> nat" where
  "to_unsigned_long x = nat (integer_part x mod 2 ^ 32)"

definition reflected :: "31 word \<Rightarrow> nat \<Rightarrow> 31 word" where
  "reflected dflt n = (if n \<le> 2147483647 then of_nat n else dflt)"

definition set_height :: "real \<Rightarrow> canvas \<Rightarrow> canvas" where
  "set_height x c = c\<lparr>height := reflected 150 (to_unsigned_long x)\<rparr>"

definition set_width :: "real \<Rightarrow> canvas \<Rightarrow> canvas" where
  "set_width x c = c\<lparr>width := reflected 300 (to_unsigned_long x)\<rparr>"

definition render_call :: "js_value \<Rightarrow> ref \<Rightarrow> viewport \<Rightarrow> canvas \<Rightarrow> canvas" where
  "render_call pageData context vp c =
     c\<lparr>draws := draws c @ [\<lparr>drawPage = pageData, drawContext = context, drawViewport = vp,
                              surfaceHeight = height c, surfaceWidth = width c\<rparr>]\<rparr>"

text \<open>
  The body of the render effect. \<^verbatim>\<open>getViewport\<close> belongs to the decoder library and
  is a parameter.
\<close>

definition render_effect ::
  "(js_value \<Rightarrow> real \<Rightarrow> viewport) \<Rightarrow> canvas option \<Rightarrow> fetch_result \<Rightarrow> real option
     \<Rightarrow> canvas option" where
  "render_effect getViewport canvasRef pageResult sc =
     (case canvasRef of
        None \<Rightarrow> None
      | Some cv \<Rightarrow>
          if status pageResult = ''success'' then
            (let pageData = data pageResult;
                 vp = getViewport pageData (nullish sc 1)
             in case context2d cv of
                  None \<Rightarrow> Some cv
                | Some context \<Rightarrow>
                    Some (render_call pageData context vp
                            (set_width (vwidth vp) (set_height (vheight vp) cv))))
          else Some cv)"

text \<open>
  The environment of a component instance: the decoder's viewport function, and what
  \<^verbatim>\<open>getContext('2d')\<close> returns for a canvas element of this instance. A canvas element
  that the DOM creates for the component has the default size and no draw calls.
\<close>

record env =
  getViewport :: "js_value \<Rightarrow> real \<Rightarrow> viewport"
  newContext2d :: "ref option"

definition createCanvas :: "env \<Rightarrow> canvas" where
  "createCanvas e = \<lparr>height = 150, width = 300, context2d = newContext2d e, draws = []\<rparr>"

text \<open>
  Committing a render pass: when the pass returns the canvas element, the ref callback
  stores the element (a new one if none was mounted); when it returns a fallback, the
  element is unmounted and the ref callback stores null. Refs are set before the effects
  of the pass run.
\<close>

definition commit_canvas :: "env \<Rightarrow> view \<Rightarrow> canvas option \<Rightarrow> canvas option" where
  "commit_canvas e v canvasRef =
     (case v of
        CanvasElement \<Rightarrow> (case canvasRef of None \<Rightarrow> Some (createCanvas e) | Some c \<Rightarrow> Some c)
      | LoadingFallback \<Rightarrow> None
      | ErrorFallback \<Rightarrow> None)"

subsection \<open>One render pass\<close>

text \<open>
  The state the hooks of one component instance keep between render passes: the runners
  of the three \<^verbatim>\<open>useFetch\<close> calls, the last dependencies of the six effects in the order
  of the source, and the current value of the canvas ref.
\<close>

record hooks =
  bufferStage :: "(source_type \<times> source_value \<times> ref option) runner"
  documentStage :: "fetch_result runner"
  pageStage :: "(fetch_result \<times> int option) runner"
  documentEffect :: "(fetch_result \<times> ref option) option"
  pageEffect :: "(fetch_result \<times> ref option) option"
  loadingEffect :: "(ref option \<times> bool) option"
  successEffect :: "(ref option \<times> bool) option"
  failureEffect :: "(ref option \<times> js_value) option"
  renderEffect :: "(fetch_result \<times> real option) option"
  canvasRef :: "canvas option"

definition init_hooks :: hooks where
  "init_hooks =
     \<lparr>bufferStage = init_runner, documentStage = init_runner, pageStage = init_runner,
      documentEffect = None, pageEffect = None, loadingEffect = None,
      successEffect = None, failureEffect = None, renderEffect = None,
      canvasRef = None\<rparr>"

record rendering =
  shown :: view
  calls :: "call list"

text \<open>
  Modelled from the spec: the hook \<^verbatim>\<open>useFetch(producer, deps)\<close> of \<^verbatim>\<open>./use-fetch\<close>, as
  \<open>Byblos.tsx\<close> calls it: it runs the runner of the stage with the dependency array as
  key and returns the published result.
\<close>

definition useFetch :: "action \<Rightarrow> 'k \<Rightarrow> 'k runner \<Rightarrow> fetch_result \<times> 'k runner" where
  "useFetch produced deps r = (let r' = run produced deps r in (published r', r'))"

text \<open>
  The component function together with the commit of what it returns and the effects of
  the pass, which React runs after the commit in the order of their declaration.
\<close>

definition Byblos :: "env \<Rightarrow> props \<Rightarrow> hooks \<Rightarrow> hooks \<times> rendering" where
  "Byblos e p h =
     (let (bufferResult, b) =
            useFetch (bytes_producer p) (ptype p, pvalue p, fetchOptions p) (bufferStage h);
          (documentResult, d) =
            useFetch (document_producer bufferResult) bufferResult (documentStage h);
          (pageResult, g) =
            useFetch (page_producer documentResult (page p)) (documentResult, page p)
              (pageStage h);
          ld = loading bufferResult documentResult pageResult;
          sc = success pageResult;
          err = error bufferResult documentResult pageResult;
          v = rendered ld err;
          cv = commit_canvas e v (canvasRef h);
          c1 = (if effect_due (documentEffect h) (documentResult, onDocumentSuccess p)
                then document_success_effect documentResult (onDocumentSuccess p) else []);
          c2 = (if effect_due (pageEffect h) (pageResult, onPageSuccess p)
                then page_success_effect pageResult (onPageSuccess p) else []);
          c3 = (if effect_due (loadingEffect h) (onLoading p, ld)
                then loading_effect ld (onLoading p) else []);
          c4 = (if effect_due (successEffect h) (onSuccess p, sc)
                then success_effect sc (onSuccess p) else []);
          c5 = (if effect_due (failureEffect h) (onFailure p, err)
                then failure_effect err (onFailure p) else []);
          cv' = (if effect_due (renderEffect h) (pageResult, scale p)
                 then render_effect (getViewport e) cv pageResult (scale p) else cv)
      in (\<lparr>bufferStage = b, documentStage = d, pageStage = g,
           documentEffect = Some (documentResult, onDocumentSuccess p),
           pageEffect = Some (pageResult, onPageSuccess p),
           loadingEffect = Some (onLoading p, ld),
           successEffect = Some (onSuccess p, sc),
           failureEffect = Some (onFailure p, err),
           renderEffect = Some (pageResult, scale p),
           canvasRef = cv'\<rparr>,
          \<lparr>shown = v, calls = c1 @ c2 @ c3 @ c4 @ c5\<rparr>))"

subsection \<open>The component in its environment\<close>

text \<open>
  Between render passes the parent may render the component with new props, and an
  operation in flight may settle, which the runner of its stage handles and which is
  followed by a render pass with the props unchanged.
\<close>

datatype stage = BytesStage | DocumentStage | PageStage

datatype event = SetProps props | Settle stage nat outcome

definition settle :: "stage \<Rightarrow> nat \<Rightarrow> outcome \<Rightarrow> hooks \<Rightarrow> hooks" where
  "settle s t out h =
     (case s of
        BytesStage \<Rightarrow> h\<lparr>bufferStage := completion t out (bufferStage h)\<rparr>
      | DocumentStage \<Rightarrow> h\<lparr>documentStage := completion t out (documentStage h)\<rparr>
      | PageStage \<Rightarrow> h\<lparr>pageStage := completion t out (pageStage h)\<rparr>)"

fun step :: "env \<Rightarrow> event \<Rightarrow> props \<times> hooks \<Rightarrow> props \<times> hooks" where
  "step e (SetProps p') (p, h) = (p', fst (Byblos e p' h))"
| "step e (Settle s t out) (p, h) = (p, fst (Byblos e p (settle s t out h)))"

definition mount :: "env \<Rightarrow> props \<Rightarrow> props \<times> hooks" where
  "mount e p = (p, fst (Byblos e p init_hooks))"

fun steps :: "env \<Rightarrow> event list \<Rightarrow> props \<times> hooks \<Rightarrow> props \<times> hooks" where
  "steps e [] s = s"
| "steps e (ev # evs) s = steps e evs (step e ev s)"

section \<open>Notions used in the statements\<close>

text \<open>The dependency key of the bytes stage, as the dependency array lists it.\<close>

definition bytes_key :: "props \<Rightarrow> source_type \<times> source_value \<times> ref option" where
  "bytes_key p = (ptype p, pvalue p, fetchOptions p)"

text \<open>The result objects the three stages publish in a given state of the hooks.\<close>

definition bufferResult :: "hooks \<Rightarrow> fetch_result" where
  "bufferResult h = published (bufferStage h)"

definition documentResult :: "hooks \<Rightarrow> fetch_result" where
  "documentResult h = published (documentStage h)"

definition pageResult :: "hooks \<Rightarrow> fetch_result" where
  "pageResult h = published (pageStage h)"


text \<open>A stage is blocked when its current run returned the deferred signal.\<close>

definition blocked :: "'k runner \<Rightarrow> bool" where
  "blocked r \<longleftrightarrow> state r = Pending \<and> inflight r = Some Suspend"

text \<open>
  The render pass of a step: the props and the hooks with which it runs, and what it
  returns and invokes.
\<close>

fun next_props :: "event \<Rightarrow> props \<Rightarrow> props" where
  "next_props (SetProps p') p = p'"
| "next_props (Settle s t out) p = p"

fun before_pass :: "event \<Rightarrow> hooks \<Rightarrow> hooks" where
  "before_pass (SetProps p') h = h"
| "before_pass (Settle s t out) h = settle s t out h"

fun step_rendering :: "env \<Rightarrow> event \<Rightarrow> props \<times> hooks \<Rightarrow> rendering" where
  "step_rendering e (SetProps p') (p, h) = snd (Byblos e p' h)"
| "step_rendering e (Settle s t out) (p, h) = snd (Byblos e p (settle s t out h))"

fun changes_bytes_key :: "event \<Rightarrow> props \<Rightarrow> bool" where
  "changes_bytes_key (SetProps p') p \<longleftrightarrow> bytes_key p' \<noteq> bytes_key p"
| "changes_bytes_key (Settle s t out) p \<longleftrightarrow> False"

text \<open>The invocations of one callback among the calls of a render pass.\<close>

fun is_document_call :: "call \<Rightarrow> bool" where
  "is_document_call (OnDocumentSuccess f v) = True"
| "is_document_call c = False"

fun is_page_call :: "call \<Rightarrow> bool" where
  "is_page_call (OnPageSuccess f v) = True"
| "is_page_call c = False"

fun is_success_call :: "call \<Rightarrow> bool" where
  "is_success_call (OnSuccess f) = True"
| "is_success_call c = False"


text \<open>The canvas element that is in place once a pass that returns the canvas is committed.\<close>

definition mounted_canvas :: "env \<Rightarrow> canvas option \<Rightarrow> canvas" where
  "mounted_canvas e cr = (case cr of None \<Rightarrow> createCanvas e | Some c \<Rightarrow> c)"

text \<open>What the height or the width of a canvas is after a number has been assigned to it.\<close>

definition stored_size :: "31 word \<Rightarrow> real \<Rightarrow> 31 word" where
  "stored_size dflt x = reflected dflt (to_unsigned_long x)"

subsection \<open>Invariants\<close>

text \<open>
  After a render pass with props \<open>p\<close>, every hook remembers the dependencies of that
  pass.
\<close>

definition synced :: "props \<Rightarrow> hooks \<Rightarrow> bool" where
  "synced p h \<longleftrightarrow>
     key (bufferStage h) = Some (bytes_key p)
     \<and> key (documentStage h) = Some (bufferResult h)
     \<and> key (pageStage h) = Some (documentResult h, page p)
     \<and> documentEffect h = Some (documentResult h, onDocumentSuccess p)
     \<and> pageEffect h = Some (pageResult h, onPageSuccess p)
     \<and> loadingEffect h
         = Some (onLoading p, loading (bufferResult h) (documentResult h) (pageResult h))
     \<and> successEffect h = Some (onSuccess p, success (pageResult h))
     \<and> failureEffect h
         = Some (onFailure p, error (bufferResult h) (documentResult h) (pageResult h))
     \<and> renderEffect h = Some (pageResult h, scale p)"

text \<open>
  A run in flight leaves the state pending; a runner whose key holds an upstream result
  that is not a success is blocked.
\<close>

definition wf_runner :: "'k runner \<Rightarrow> bool" where
  "wf_runner r \<longleftrightarrow> inflight r = None \<or> state r = Pending"

definition guarded :: "('k \<Rightarrow> fetch_result) \<Rightarrow> 'k runner \<Rightarrow> bool" where
  "guarded upstream r \<longleftrightarrow>
     (case key r of None \<Rightarrow> True | Some k \<Rightarrow> status (upstream k) = ''success'' \<or> blocked r)"

definition hooks_inv :: "hooks \<Rightarrow> bool" where
  "hooks_inv h \<longleftrightarrow>
     wf_runner (bufferStage h) \<and> wf_runner (documentStage h) \<and> wf_runner (pageStage h)
     \<and> guarded (\<lambda>k. k) (documentStage h) \<and> guarded fst (pageStage h)"

definition pipeline_inv :: "props \<times> hooks \<Rightarrow> bool" where
  "pipeline_inv s \<longleftrightarrow> synced (fst s) (snd s) \<and> hooks_inv (snd s)"

subsection \<open>A concrete instance\<close>

text \<open>Two runs of one runner, the second superseding the first.\<close>

definition example_runs :: "nat runner_event list" where
  "example_runs =
     [Observe (Request (GetPage (JObject 20) 1)) 1, Observe (Request (GetPage (JObject 20) 2)) 2]"

text \<open>
  A document given by URL, every callback supplied; an environment whose canvas element
  gives a 2D context, and one whose canvas element gives none.
\<close>

definition example_props :: props where
  "example_props =
     \<lparr>ptype = TypeUrl, pvalue = StringValue ''a.pdf'', fetchOptions = None,
      page = None, scale = None,
      onLoading = Some 1, onSuccess = Some 2, onFailure = Some 3,
      onDocumentSuccess = Some 4, onPageSuccess = Some 5\<rparr>"

definition example_env :: env where
  "example_env =
     \<lparr>getViewport = (\<lambda>pg s. \<lparr>vheight = 800 * s, vwidth = 600 * s\<rparr>),
      newContext2d = Some 9\<rparr>"

definition example_env_no_context :: env where
  "example_env_no_context =
     \<lparr>getViewport = (\<lambda>pg s. \<lparr>vheight = 800 * s, vwidth = 600 * s\<rparr>),
      newContext2d = None\<rparr>"

text \<open>
  The states of the instance: the bytes have arrived; then the document; then the page.
  The states in which the fetch, the document decoder or the page decoder has rejected
  with an error object.
\<close>

definition example_fetched :: "props \<times> hooks" where
  "example_fetched =
     steps example_env [Settle BytesStage 1 (Resolved 10)] (mount example_env example_props)"

definition example_decoded :: "props \<times> hooks" where
  "example_decoded =
     steps example_env [Settle BytesStage 1 (Resolved 10), Settle DocumentStage 2 (Resolved 20)]
       (mount example_env example_props)"

definition example_drawn :: "props \<times> hooks" where
  "example_drawn = step example_env (Settle PageStage 3 (Resolved 30)) example_decoded"

definition example_failed :: "props \<times> hooks" where
  "example_failed =
     steps example_env [Settle BytesStage 1 (Rejected (JObject 66))]
       (mount example_env example_props)"


definition example_page_failed :: "props \<times> hooks" where
  "example_page_failed
     = step example_env (Settle PageStage 3 (Rejected (JObject 77))) example_decoded"

text \<open>
  An environment whose pages are 595.28 by 841.89 points at scale 1, and the state of the
  instance in it when the document has arrived.
\<close>

definition example_env_a4 :: env where
  "example_env_a4 =
     \<lparr>getViewport = (\<lambda>pg s. \<lparr>vheight = 841.89 * s, vwidth = 595.28 * s\<rparr>),
      newContext2d = Some 9\<rparr>"

definition example_decoded_a4 :: "props \<times> hooks" where
  "example_decoded_a4 =
     steps example_env_a4
       [Settle BytesStage 1 (Resolved 10), Settle DocumentStage 2 (Resolved 20)]
       (mount example_env_a4 example_props)"

definition example_decoded_no_context :: "props \<times> hooks" where
  "example_decoded_no_context =
     steps example_env_no_context
       [Settle BytesStage 1 (Resolved 10), Settle DocumentStage 2 (Resolved 20)]
       (mount example_env_no_context example_props)"


section \<open>Basic facts\<close>

lemma status_pending_iff: "status r = ''pending'' \<longleftrightarrow> res r = Pending"
  by (simp add: status_def split: StageResult.splits)

lemma status_success_iff: "status r = ''success'' \<longleftrightarrow> (\<exists>v. res r = Success v)"
  by (simp add: status_def split: StageResult.splits)

lemma status_failure_iff: "status r = ''failure'' \<longleftrightarrow> (\<exists>e. res r = Failure e)"
  by (simp add: status_def split: StageResult.splits)

lemma data_Success: "res r = Success v \<Longrightarrow> data r = JObject v"
  by (simp add: data_def)


subsection \<open>The runner\<close>

lemma key_run: "key (run a k r) = Some k"
  by (simp add: run_def)

lemma run_same_key: "key r = Some k \<Longrightarrow> run a k r = r"
  by (simp add: run_def)

lemma run_new_key:
  "key r \<noteq> Some k \<Longrightarrow>
   run a k r = r\<lparr>key := Some k, token := token r + 1, state := Pending, inflight := Some a\<rparr>"
  by (simp add: run_def)

lemma key_complete: "key (completion t out r) = key r"
  by (simp add: completion_def split: option.splits action.splits)

lemma token_complete: "token (completion t out r) = token r"
  by (simp add: completion_def split: option.splits action.splits)

lemma complete_stale: "t \<noteq> token r \<Longrightarrow> completion t out r = r"
  by (simp add: completion_def)

subsection \<open>What a render pass leaves in the hooks\<close>

lemma Byblos_bufferStage:
  "bufferStage (fst (Byblos e p h)) = run (bytes_producer p) (bytes_key p) (bufferStage h)"
  by (simp add: Byblos_def useFetch_def Let_def split_def bytes_key_def)

lemma Byblos_documentStage:
  "documentStage (fst (Byblos e p h)) =
     run (document_producer (bufferResult (fst (Byblos e p h))))
       (bufferResult (fst (Byblos e p h))) (documentStage h)"
  by (simp add: Byblos_def useFetch_def Let_def split_def bufferResult_def)

lemma Byblos_pageStage:
  "pageStage (fst (Byblos e p h)) =
     run (page_producer (documentResult (fst (Byblos e p h))) (page p))
       (documentResult (fst (Byblos e p h)), page p) (pageStage h)"
  by (simp add: Byblos_def useFetch_def Let_def split_def documentResult_def)

lemma Byblos_shown:
  "shown (snd (Byblos e p h)) =
     rendered
       (loading (bufferResult (fst (Byblos e p h))) (documentResult (fst (Byblos e p h)))
          (pageResult (fst (Byblos e p h))))
       (error (bufferResult (fst (Byblos e p h))) (documentResult (fst (Byblos e p h)))
          (pageResult (fst (Byblos e p h))))"
  by (simp add: Byblos_def useFetch_def Let_def split_def bufferResult_def documentResult_def
      pageResult_def)

lemma Byblos_synced: "synced p (fst (Byblos e p h))"
  by (simp add: synced_def Byblos_def useFetch_def Let_def split_def bufferResult_def
      documentResult_def pageResult_def bytes_key_def key_run)

text \<open>Unfolding a render pass at a concrete state.\<close>

lemmas render_defs =
  Byblos_def useFetch_def Let_def split_def
  run_def completion_def settle_def published_def bufferResult_def documentResult_def
  pageResult_def example_props_def example_env_def bytes_producer_def document_producer_def
  page_producer_def status_def data_def suspend_def settled_def error_def js_and_def
  js_or_def loading_def success_def rendered_def commit_canvas_def effect_due_def
  document_success_effect_def page_success_effect_def loading_effect_def
  success_effect_def failure_effect_def render_effect_def render_call_def nullish_def
  createCanvas_def set_height_def set_width_def reflected_def to_unsigned_long_def
  integer_part_def

lemmas pass_defs = mount_def init_hooks_def init_runner_def render_defs

subsection \<open>The states of the concrete instance\<close>

lemma mount_example:
  "mount example_env example_props =
     (example_props,
      \<lparr>bufferStage =
       \<lparr>key = Some (TypeUrl, StringValue ''a.pdf'', None), token = 1,
          state = Pending,
          inflight = Some (Request (Fetch (StringValue ''a.pdf'') None))\<rparr>,
       documentStage =
         \<lparr>key = Some \<lparr>gen = 1, res = Pending\<rparr>, token = 1, state = Pending,
            inflight = Some Suspend\<rparr>,
       pageStage =
         \<lparr>key = Some (\<lparr>gen = 1, res = Pending\<rparr>, None), token = 1,
            state = Pending, inflight = Some Suspend\<rparr>,
       documentEffect = Some (\<lparr>gen = 1, res = Pending\<rparr>, Some 4),
       pageEffect = Some (\<lparr>gen = 1, res = Pending\<rparr>, Some 5),
       loadingEffect = Some (Some 1, True),
       successEffect = Some (Some 2, False),
       failureEffect = Some (Some 3, JBool False),
       renderEffect = Some (\<lparr>gen = 1, res = Pending\<rparr>, None), canvasRef = None\<rparr>)"
  by (simp add: pass_defs)

lemma example_fetched_state:
  "example_fetched =
     (example_props,
      \<lparr>bufferStage =
       \<lparr>key = Some (TypeUrl, StringValue ''a.pdf'', None), token = 1,
          state = Success 10, inflight = None\<rparr>,
       documentStage =
         \<lparr>key = Some \<lparr>gen = 1, res = Success 10\<rparr>, token = 2, state = Pending,
            inflight = Some (Request (GetDocument (JObject 10)))\<rparr>,
       pageStage =
         \<lparr>key = Some (\<lparr>gen = 2, res = Pending\<rparr>, None), token = 2,
            state = Pending, inflight = Some Suspend\<rparr>,
       documentEffect = Some (\<lparr>gen = 2, res = Pending\<rparr>, Some 4),
       pageEffect = Some (\<lparr>gen = 2, res = Pending\<rparr>, Some 5),
       loadingEffect = Some (Some 1, True),
       successEffect = Some (Some 2, False),
       failureEffect = Some (Some 3, JBool False),
       renderEffect = Some (\<lparr>gen = 2, res = Pending\<rparr>, None), canvasRef = None\<rparr>)"
  unfolding example_fetched_def steps.simps mount_example
  by (simp add: render_defs)

lemma example_decoded_step:
  "example_decoded = step example_env (Settle DocumentStage 2 (Resolved 20)) example_fetched"
  by (simp add: example_decoded_def example_fetched_def)

lemma example_decoded_state:
  "example_decoded =
     (example_props,
      \<lparr>bufferStage =
       \<lparr>key = Some (TypeUrl, StringValue ''a.pdf'', None), token = 1,
          state = Success 10, inflight = None\<rparr>,
       documentStage =
         \<lparr>key = Some \<lparr>gen = 1, res = Success 10\<rparr>, token = 2,
            state = Success 20, inflight = None\<rparr>,
       pageStage =
         \<lparr>key = Some (\<lparr>gen = 2, res = Success 20\<rparr>, None), token = 3,
            state = Pending,
            inflight = Some (Request (GetPage (JObject 20) 1))\<rparr>,
       documentEffect = Some (\<lparr>gen = 2, res = Success 20\<rparr>, Some 4),
       pageEffect = Some (\<lparr>gen = 3, res = Pending\<rparr>, Some 5),
       loadingEffect = Some (Some 1, True),
       successEffect = Some (Some 2, False),
       failureEffect = Some (Some 3, JBool False),
       renderEffect = Some (\<lparr>gen = 3, res = Pending\<rparr>, None), canvasRef = None\<rparr>)"
  unfolding example_decoded_step example_fetched_state
  by (simp add: render_defs)

lemma example_drawn_state:
  "example_drawn =
     (example_props,
      \<lparr>bufferStage =
       \<lparr>key = Some (TypeUrl, StringValue ''a.pdf'', None), token = 1,
          state = Success 10, inflight = None\<rparr>,
       documentStage =
         \<lparr>key = Some \<lparr>gen = 1, res = Success 10\<rparr>, token = 2,
            state = Success 20, inflight = None\<rparr>,
       pageStage =
         \<lparr>key = Some (\<lparr>gen = 2, res = Success 20\<rparr>, None), token = 3,
            state = Success 30, inflight = None\<rparr>,
       documentEffect = Some (\<lparr>gen = 2, res = Success 20\<rparr>, Some 4),
       pageEffect = Some (\<lparr>gen = 3, res = Success 30\<rparr>, Some 5),
       loadingEffect = Some (Some 1, False),
       successEffect = Some (Some 2, True),
       failureEffect = Some (Some 3, JBool False),
       renderEffect = Some (\<lparr>gen = 3, res = Success 30\<rparr>, None),
       canvasRef =
         Some
          \<lparr>height = 800, width = 600, context2d = Some 9,
             draws =
               [\<lparr>drawPage = JObject 30, drawContext = 9,
                   drawViewport = \<lparr>vheight = 800, vwidth = 600\<rparr>,
                   surfaceHeight = 800, surfaceWidth = 600\<rparr>]\<rparr>\<rparr>)"
  unfolding example_drawn_def example_decoded_state
  by (simp add: render_defs)

lemma example_page_failed_state:
  "example_page_failed =
     (example_props,
      \<lparr>bufferStage =
       \<lparr>key = Some (TypeUrl, StringValue ''a.pdf'', None), token = 1,
          state = Success 10, inflight = None\<rparr>,
       documentStage =
         \<lparr>key = Some \<lparr>gen = 1, res = Success 10\<rparr>, token = 2,
            state = Success 20, inflight = None\<rparr>,
       pageStage =
         \<lparr>key = Some (\<lparr>gen = 2, res = Success 20\<rparr>, None), token = 3,
            state = Failure (JObject 77), inflight = None\<rparr>,
       documentEffect = Some (\<lparr>gen = 2, res = Success 20\<rparr>, Some 4),
       pageEffect = Some (\<lparr>gen = 3, res = Failure (JObject 77)\<rparr>, Some 5),
       loadingEffect = Some (Some 1, False),
       successEffect = Some (Some 2, False),
       failureEffect = Some (Some 3, JObject 77),
       renderEffect = Some (\<lparr>gen = 3, res = Failure (JObject 77)\<rparr>, None),
       canvasRef = None\<rparr>)"
  unfolding example_page_failed_def example_decoded_state
  by (simp add: render_defs)

lemma example_failed_state:
  "example_failed =
     (example_props,
      \<lparr>bufferStage =
       \<lparr>key = Some (TypeUrl, StringValue ''a.pdf'', None), token = 1,
          state = Failure (JObject 66), inflight = None\<rparr>,
       documentStage =
         \<lparr>key = Some \<lparr>gen = 1, res = Failure (JObject 66)\<rparr>, token = 2,
            state = Pending, inflight = Some Suspend\<rparr>,
       pageStage =
         \<lparr>key = Some (\<lparr>gen = 2, res = Pending\<rparr>, None), token = 2,
            state = Pending, inflight = Some Suspend\<rparr>,
       documentEffect = Some (\<lparr>gen = 2, res = Pending\<rparr>, Some 4),
       pageEffect = Some (\<lparr>gen = 2, res = Pending\<rparr>, Some 5),
       loadingEffect = Some (Some 1, True),
       successEffect = Some (Some 2, False),
       failureEffect = Some (Some 3, JObject 66),
       renderEffect = Some (\<lparr>gen = 2, res = Pending\<rparr>, None), canvasRef = None\<rparr>)"
  unfolding example_failed_def steps.simps mount_example
  by (simp add: render_defs)


lemma example_decoded_no_context_state:
  "example_decoded_no_context =
     (example_props,
      \<lparr>bufferStage =
       \<lparr>key = Some (TypeUrl, StringValue ''a.pdf'', None), token = 1,
          state = Success 10, inflight = None\<rparr>,
       documentStage =
         \<lparr>key = Some \<lparr>gen = 1, res = Success 10\<rparr>, token = 2,
            state = Success 20, inflight = None\<rparr>,
       pageStage =
         \<lparr>key = Some (\<lparr>gen = 2, res = Success 20\<rparr>, None), token = 3,
            state = Pending,
            inflight = Some (Request (GetPage (JObject 20) 1))\<rparr>,
       documentEffect = Some (\<lparr>gen = 2, res = Success 20\<rparr>, Some 4),
       pageEffect = Some (\<lparr>gen = 3, res = Pending\<rparr>, Some 5),
       loadingEffect = Some (Some 1, True),
       successEffect = Some (Some 2, False),
       failureEffect = Some (Some 3, JBool False),
       renderEffect = Some (\<lparr>gen = 3, res = Pending\<rparr>, None), canvasRef = None\<rparr>)"
  by (simp add: example_decoded_no_context_def example_env_no_context_def pass_defs)

lemma example_decoded_a4_state:
  "example_decoded_a4 =
     (example_props,
      \<lparr>bufferStage =
       \<lparr>key = Some (TypeUrl, StringValue ''a.pdf'', None), token = 1,
          state = Success 10, inflight = None\<rparr>,
       documentStage =
         \<lparr>key = Some \<lparr>gen = 1, res = Success 10\<rparr>, token = 2,
            state = Success 20, inflight = None\<rparr>,
       pageStage =
         \<lparr>key = Some (\<lparr>gen = 2, res = Success 20\<rparr>, None), token = 3,
            state = Pending,
            inflight = Some (Request (GetPage (JObject 20) 1))\<rparr>,
       documentEffect = Some (\<lparr>gen = 2, res = Success 20\<rparr>, Some 4),
       pageEffect = Some (\<lparr>gen = 3, res = Pending\<rparr>, Some 5),
       loadingEffect = Some (Some 1, True),
       successEffect = Some (Some 2, False),
       failureEffect = Some (Some 3, JBool False),
       renderEffect = Some (\<lparr>gen = 3, res = Pending\<rparr>, None), canvasRef = None\<rparr>)"
  by (simp add: example_decoded_a4_def example_env_a4_def pass_defs)

section \<open>The derived outputs\<close>

text \<open>
  C7. The derived output \<open>loading\<close> is true if and only if at least one of the three
  stages (bytes, document, page) has the stage result pending.
\<close>

theorem loading_iff_some_stage_pending:
  "loading b d g \<longleftrightarrow> res b = Pending \<or> res d = Pending \<or> res g = Pending"
  by (simp add: loading_def status_pending_iff)

text \<open>
  The error scan takes a stage's error only when the stage has failed and the error value
  is truthy.
\<close>

lemma error_first_truthy_failure:
  "error b d g =
     (if status b = ''failure'' \<and> truthy (data b) then data b
      else if status d = ''failure'' \<and> truthy (data d) then data d
      else if status g = ''failure'' then data g
      else JBool False)"
  by (simp add: error_def js_and_def js_or_def)

text \<open>
  C4, at an input where it fails. The claim: the surfaced error equals the error of the
  first stage, in the order bytes, document, page, that has failed. Here the fetch of the
  bytes stage is rejected with the number 0: the bytes stage holds the failure, the
  surfaced error is \<^verbatim>\<open>false\<close>, and the render pass invokes no callback.
\<close>

theorem falsy_rejection_not_surfaced:
  "res (bufferResult (snd (step example_env (Settle BytesStage 1 (Rejected (JNumber 0)))
          (mount example_env example_props)))) = Failure (JNumber 0)
   \<and> error
        (bufferResult (snd (step example_env (Settle BytesStage 1 (Rejected (JNumber 0)))
          (mount example_env example_props))))
        (documentResult (snd (step example_env (Settle BytesStage 1 (Rejected (JNumber 0)))
          (mount example_env example_props))))
        (pageResult (snd (step example_env (Settle BytesStage 1 (Rejected (JNumber 0)))
          (mount example_env example_props)))) = JBool False
   \<and> calls (step_rendering example_env (Settle BytesStage 1 (Rejected (JNumber 0)))
          (mount example_env example_props)) = []"
  unfolding mount_example
  by (simp add: render_defs)

text \<open>
  C10. In every render pass where at least one stage is pending the component renders
  the loading fallback, also when another stage has failed; the error fallback is
  rendered only when an error exists and no stage is pending.
\<close>

theorem loading_fallback_precedes_error_fallback:
  assumes "b = bufferResult (fst (Byblos e p h))"
    and "d = documentResult (fst (Byblos e p h))"
    and "g = pageResult (fst (Byblos e p h))"
  shows "(shown (snd (Byblos e p h)) = LoadingFallback \<longleftrightarrow>
            res b = Pending \<or> res d = Pending \<or> res g = Pending)
       \<and> (shown (snd (Byblos e p h)) = ErrorFallback \<longleftrightarrow>
            truthy (error b d g) \<and> \<not> (res b = Pending \<or> res d = Pending \<or> res g = Pending))
       \<and> (truthy (error b d g) \<longrightarrow>
            (\<exists>x. res b = Failure x \<or> res d = Failure x \<or> res g = Failure x))"
proof (intro conjI)
  show "shown (snd (Byblos e p h)) = LoadingFallback \<longleftrightarrow>
          res b = Pending \<or> res d = Pending \<or> res g = Pending"
    by (simp add: assms Byblos_shown rendered_def loading_def status_pending_iff)
  show "shown (snd (Byblos e p h)) = ErrorFallback \<longleftrightarrow>
          truthy (error b d g) \<and> \<not> (res b = Pending \<or> res d = Pending \<or> res g = Pending)"
    by (simp add: assms Byblos_shown rendered_def loading_def status_pending_iff)
  show "truthy (error b d g) \<longrightarrow>
          (\<exists>x. res b = Failure x \<or> res d = Failure x \<or> res g = Failure x)"
    by (auto simp add: error_first_truthy_failure status_failure_iff split: if_splits)
qed

theorem loading_fallback_precedes_error_fallback_witness:
  "shown (snd (Byblos example_env example_props (snd example_failed))) = LoadingFallback
   \<and> res (bufferResult (fst (Byblos example_env example_props (snd example_failed))))
       = Failure (JObject 66)
   \<and> shown (snd (Byblos example_env example_props (snd example_page_failed))) = ErrorFallback"
proof -
  have a: "res (documentResult (fst (Byblos example_env example_props (snd example_failed))))
           = Pending"
    and b: "res (bufferResult (fst (Byblos example_env example_props (snd example_failed))))
           = Failure (JObject 66)"
    unfolding example_failed_state
    by (simp_all add: render_defs)
  have c: "truthy (error
             (bufferResult (fst (Byblos example_env example_props (snd example_page_failed))))
             (documentResult (fst (Byblos example_env example_props (snd example_page_failed))))
             (pageResult (fst (Byblos example_env example_props (snd example_page_failed)))))"
    and d: "res (bufferResult (fst (Byblos example_env example_props (snd example_page_failed))))
            \<noteq> Pending"
    and e: "res (documentResult (fst (Byblos example_env example_props (snd example_page_failed))))
            \<noteq> Pending"
    and f: "res (pageResult (fst (Byblos example_env example_props (snd example_page_failed))))
            \<noteq> Pending"
    unfolding example_page_failed_state
    by (simp_all add: render_defs)
  from loading_fallback_precedes_error_fallback
         [OF refl refl refl, of example_env example_props "snd example_failed"]
       loading_fallback_precedes_error_fallback
         [OF refl refl refl, of example_env example_props "snd example_page_failed"]
       a b c d e f
  show ?thesis by simp
qed

section \<open>The page producer\<close>

text \<open>
  C9. When the document stage is success, the producer of the page stage requests the
  page at the requested page index from the document handle, and at index 1 when the
  page prop is omitted; when the document stage is not success, the producer returns the
  deferred signal and requests no page.
\<close>

theorem page_producer_requests_page:
  "(res dr = Success d \<longrightarrow>
      page_producer dr (Some n) = Request (GetPage (JObject d) n)
      \<and> page_producer dr None = Request (GetPage (JObject d) 1))
   \<and> ((\<forall>d. res dr \<noteq> Success d) \<longrightarrow> page_producer dr pg = suspend)"
  by (auto simp add: page_producer_def status_success_iff nullish_def data_Success)

theorem page_producer_requests_page_witness:
  "page_producer \<lparr>gen = 2, res = Success 20\<rparr> (Some 3) = Request (GetPage (JObject 20) 3)
   \<and> page_producer \<lparr>gen = 2, res = Success 20\<rparr> None = Request (GetPage (JObject 20) 1)
   \<and> page_producer \<lparr>gen = 2, res = Pending\<rparr> (Some 3) = suspend"
  using page_producer_requests_page [of "\<lparr>gen = 2, res = Success 20\<rparr>" 20 3 "Some 3"]
    page_producer_requests_page [of "\<lparr>gen = 2, res = Pending\<rparr>" 20 3 "Some 3"]
  by simp

section \<open>The run token\<close>

lemma wf_init: "wf_runner init_runner"
  by (simp add: wf_runner_def init_runner_def)

lemma wf_run: "wf_runner r \<Longrightarrow> wf_runner (run a k r)"
  by (simp add: wf_runner_def run_def)

lemma wf_complete: "wf_runner r \<Longrightarrow> wf_runner (completion t out r)"
  by (auto simp add: wf_runner_def completion_def split: option.splits action.splits)

lemma wf_step: "wf_runner r \<Longrightarrow> wf_runner (runner_step ev r)"
  by (cases ev) (simp_all add: wf_run wf_complete)

lemma wf_trace: "wf_runner r \<Longrightarrow> wf_runner (runner_trace evs r)"
  by (induction evs arbitrary: r) (simp_all add: wf_step)

lemma token_step: "token r \<le> token (runner_step ev r)"
  by (cases ev) (simp_all add: run_def token_complete)

lemma token_trace: "token r \<le> token (runner_trace evs r)"
proof (induction evs arbitrary: r)
  case Nil
  show ?case by simp
next
  case (Cons ev evs)
  have "token r \<le> token (runner_step ev r)" by (rule token_step)
  also have "\<dots> \<le> token (runner_trace evs (runner_step ev r))" by (rule Cons.IH)
  finally show ?case by simp
qed

lemma runner_trace_append:
  "runner_trace (xs @ ys) r = runner_trace ys (runner_trace xs r)"
  by (induction xs arbitrary: r) simp_all

lemma settled_not_Pending: "settled out \<noteq> Pending"
  by (simp add: settled_def split: outcome.splits)

lemma complete_current_request:
  "inflight r = Some (Request q) \<Longrightarrow> state (completion (token r) out r) = settled out"
  by (simp add: completion_def)

lemma superseded_run_stays_stale:
  assumes "key r \<noteq> Some k"
  shows "runner_trace (Observe a k # later @ [Complete (token r) out]) r
         = runner_trace (Observe a k # later) r"
proof -
  let ?r1 = "run a k r"
  let ?r2 = "runner_trace later ?r1"
  have "token ?r1 = token r + 1" using assms by (simp add: run_def)
  moreover have "token ?r1 \<le> token ?r2" by (rule token_trace)
  ultimately have "token r \<noteq> token ?r2" by simp
  then have "completion (token r) out ?r2 = ?r2" by (rule complete_stale)
  then show ?thesis by (simp add: runner_trace_append)
qed

text \<open>
  C1. For every sequence of dependency-key changes and completions of a stage, the
  result of a run is applied to the published stage result if and only if the token of
  the run still equals the current token of the stage when the run completes; the result
  of a superseded run is discarded silently and is never observed in the published
  state, also when the older run completes after a newer one.
\<close>

theorem run_token_guards_published_state:
  assumes "r = runner_trace evs init_runner"
  shows "(inflight r = Some (Request q) \<longrightarrow>
            (state (completion t out r) = settled out \<longleftrightarrow> t = token r))
         \<and> (t \<noteq> token r \<longrightarrow> completion t out r = r)
         \<and> (key r \<noteq> Some k \<longrightarrow>
              published (runner_trace (Observe a k # later @ [Complete (token r) out]) r)
              = published (runner_trace (Observe a k # later) r))"
proof (intro conjI impI)
  assume q: "inflight r = Some (Request q)"
  have "wf_runner r" using assms by (simp add: wf_trace wf_init)
  with q have p: "state r = Pending" by (simp add: wf_runner_def)
  show "state (completion t out r) = settled out \<longleftrightarrow> t = token r"
  proof (cases "t = token r")
    case True
    with q show ?thesis by (simp add: complete_current_request)
  next
    case False
    then have "completion t out r = r" by (rule complete_stale)
    with p False show ?thesis using settled_not_Pending [of out] by auto
  qed
next
  assume "t \<noteq> token r"
  then show "completion t out r = r" by (rule complete_stale)
next
  assume "key r \<noteq> Some k"
  then show "published (runner_trace (Observe a k # later @ [Complete (token r) out]) r)
             = published (runner_trace (Observe a k # later) r)"
    using superseded_run_stays_stale [of r k a later out] by simp
qed

lemma example_runs_runner:
  "runner_trace example_runs init_runner
   = \<lparr>key = Some 2, token = 2, state = Pending,
      inflight = Some (Request (GetPage (JObject 20) 2))\<rparr>"
  by (simp add: example_runs_def run_def init_runner_def)

theorem run_token_guards_published_state_witness:
  "state (completion 2 (Resolved 32) (runner_trace example_runs init_runner)) = Success 32
   \<and> state (completion 1 (Resolved 31) (runner_trace example_runs init_runner)) = Pending
   \<and> completion 1 (Resolved 31) (runner_trace example_runs init_runner)
       = runner_trace example_runs init_runner
   \<and> published (runner_trace [Observe Suspend 3, Complete 2 (Resolved 32)]
        (runner_trace example_runs init_runner)) = \<lparr>gen = 3, res = Pending\<rparr>"
  using
    run_token_guards_published_state
      [of "runner_trace example_runs init_runner" example_runs
        "GetPage (JObject 20) 2" 2 "Resolved 32" 3 Suspend "[]"]
    run_token_guards_published_state
      [of "runner_trace example_runs init_runner" example_runs
        "GetPage (JObject 20) 2" 1 "Resolved 31" 3 Suspend "[]"]
  by (simp add: example_runs_runner run_def published_def settled_def)

section \<open>The pipeline of three stages\<close>

lemma blocked_completion: "blocked r \<Longrightarrow> completion t out r = r"
  by (simp add: blocked_def completion_def)

lemma guarded_init: "guarded up init_runner"
  by (simp add: guarded_def init_runner_def)

lemma guarded_completion: "guarded up r \<Longrightarrow> guarded up (completion t out r)"
  by (auto simp add: guarded_def key_complete blocked_completion split: option.splits)

lemma document_producer_Suspend:
  "status b \<noteq> ''success'' \<Longrightarrow> document_producer b = Suspend"
  by (simp add: document_producer_def suspend_def)

lemma page_producer_Suspend:
  "status d \<noteq> ''success'' \<Longrightarrow> page_producer d pg = Suspend"
  by (simp add: page_producer_def suspend_def)

lemma guarded_run_document:
  "guarded (\<lambda>k. k) r \<Longrightarrow> guarded (\<lambda>k. k) (run (document_producer b) b r)"
  using document_producer_Suspend [of b]
  by (auto simp add: guarded_def run_def blocked_def)

lemma guarded_run_page:
  "guarded fst r \<Longrightarrow> guarded fst (run (page_producer d pg) (d, pg) r)"
  using page_producer_Suspend [of d pg]
  by (auto simp add: guarded_def run_def blocked_def)

lemma hooks_inv_init: "hooks_inv init_hooks"
  by (simp add: hooks_inv_def init_hooks_def wf_init guarded_init)

lemma hooks_inv_settle: "hooks_inv h \<Longrightarrow> hooks_inv (settle s t out h)"
  by (cases s) (simp_all add: hooks_inv_def settle_def wf_complete guarded_completion)

lemma hooks_inv_Byblos: "hooks_inv h \<Longrightarrow> hooks_inv (fst (Byblos e p h))"
  unfolding hooks_inv_def
  by (simp add: Byblos_bufferStage Byblos_documentStage Byblos_pageStage wf_run
      guarded_run_document guarded_run_page)

lemma inv_mount: "pipeline_inv (mount e p)"
  by (simp add: pipeline_inv_def mount_def Byblos_synced hooks_inv_Byblos hooks_inv_init)

lemma inv_step: "pipeline_inv s \<Longrightarrow> pipeline_inv (step e ev s)"
  by (cases s; cases ev)
     (simp_all add: pipeline_inv_def Byblos_synced hooks_inv_Byblos hooks_inv_settle)

lemma inv_steps: "pipeline_inv s \<Longrightarrow> pipeline_inv (steps e evs s)"
  by (induction evs arbitrary: s) (simp_all add: inv_step)

lemma reachable_inv: "pipeline_inv (steps e evs (mount e p0))"
  by (simp add: inv_steps inv_mount)

lemma status_published_pending: "state r = Pending \<Longrightarrow> status (published r) \<noteq> ''success''"
  by (simp add: status_def published_def)

lemma inv_blocked:
  assumes "pipeline_inv (p, h)" and "status (bufferResult h) \<noteq> ''success''"
  shows "blocked (documentStage h) \<and> blocked (pageStage h)"
proof -
  from assms(1) have kd: "key (documentStage h) = Some (bufferResult h)"
    and kp: "key (pageStage h) = Some (documentResult h, page p)"
    and gd: "guarded (\<lambda>k. k) (documentStage h)" and gp: "guarded fst (pageStage h)"
    by (simp_all add: pipeline_inv_def synced_def hooks_inv_def)
  from gd kd assms(2) have bd: "blocked (documentStage h)"
    by (simp add: guarded_def)
  then have "status (documentResult h) \<noteq> ''success''"
    by (simp add: documentResult_def blocked_def status_published_pending)
  with gp kp have "blocked (pageStage h)"
    by (simp add: guarded_def)
  with bd show ?thesis by simp
qed

lemma stable_bytes:
  assumes "pipeline_inv (p, h)" and "res (bufferResult h) = Failure x" and "\<not> changes_bytes_key ev p"
  shows "bufferStage (snd (step e ev (p, h))) = bufferStage h"
proof -
  from assms(1) have k: "key (bufferStage h) = Some (bytes_key p)"
    and wf: "wf_runner (bufferStage h)"
    by (simp_all add: pipeline_inv_def synced_def hooks_inv_def)
  from assms(2) have "state (bufferStage h) = Failure x"
    by (simp add: bufferResult_def published_def)
  with wf have nf: "inflight (bufferStage h) = None"
    by (simp add: wf_runner_def)
  then have c: "completion t out (bufferStage h) = bufferStage h" for t out
    by (simp add: completion_def)
  show ?thesis
  proof (cases ev)
    case (SetProps p')
    with assms(3) have "bytes_key p' = bytes_key p" by simp
    with SetProps k show ?thesis by (simp add: Byblos_bufferStage run_same_key)
  next
    case (Settle s t out)
    then show ?thesis using k c
      by (cases s) (simp_all add: Byblos_bufferStage run_same_key settle_def)
  qed
qed

text \<open>
  C2, as amended. In every state the component reaches in which the stage result of the
  bytes stage is pending or failure, the document stage and the page stage are blocked:
  their current runs returned the deferred signal and their stage results are pending,
  neither success nor failure. A failed bytes stage keeps its failure under every event
  that does not change its dependency key, so the two stages stay blocked until then.
  (A pending bytes stage also releases them by completing with success.)
\<close>

theorem downstream_blocked_while_bytes_not_ready:
  assumes "s = steps e evs (mount e p0)"
  shows "(status (bufferResult (snd s)) = ''pending'' \<or> status (bufferResult (snd s)) = ''failure''
            \<longrightarrow> blocked (documentStage (snd s)) \<and> blocked (pageStage (snd s)))
         \<and> (status (bufferResult (snd s)) = ''failure'' \<and> \<not> changes_bytes_key ev (fst s)
            \<longrightarrow> bufferResult (snd (step e ev s)) = bufferResult (snd s)
                \<and> blocked (documentStage (snd (step e ev s)))
                \<and> blocked (pageStage (snd (step e ev s))))"
proof (intro conjI impI)
  have i: "pipeline_inv (fst s, snd s)" using assms reachable_inv [of e evs p0] by simp
  {
    assume "status (bufferResult (snd s)) = ''pending'' \<or> status (bufferResult (snd s)) = ''failure''"
    then have ns: "status (bufferResult (snd s)) \<noteq> ''success''" by auto
    from inv_blocked [OF i ns]
    show "blocked (documentStage (snd s))" and "blocked (pageStage (snd s))" by simp_all
  }
  assume a: "status (bufferResult (snd s)) = ''failure'' \<and> \<not> changes_bytes_key ev (fst s)"
  then obtain x where x: "res (bufferResult (snd s)) = Failure x"
    by (auto simp add: status_failure_iff)
  from stable_bytes [OF i x] a have "bufferStage (snd (step e ev (fst s, snd s))) = bufferStage (snd s)"
    by simp
  then show b: "bufferResult (snd (step e ev s)) = bufferResult (snd s)"
    by (simp add: bufferResult_def)
  have i': "pipeline_inv (fst (step e ev s), snd (step e ev s))" using i inv_step [of s e ev] by simp
  from a b have ns': "status (bufferResult (snd (step e ev s))) \<noteq> ''success''" by simp
  from inv_blocked [OF i' ns']
  show "blocked (documentStage (snd (step e ev s)))" and "blocked (pageStage (snd (step e ev s)))"
    by simp_all
qed

theorem downstream_blocked_while_bytes_not_ready_witness:
  "blocked (documentStage (snd (mount example_env example_props)))
   \<and> blocked (pageStage (snd (mount example_env example_props)))
   \<and> bufferResult (snd (step example_env (Settle DocumentStage 2 (Resolved 20)) example_failed))
       = bufferResult (snd example_failed)
   \<and> blocked (documentStage
        (snd (step example_env (Settle DocumentStage 2 (Resolved 20)) example_failed)))
   \<and> blocked (pageStage
        (snd (step example_env (Settle DocumentStage 2 (Resolved 20)) example_failed)))"
proof -
  have a: "mount example_env example_props = steps example_env [] (mount example_env example_props)"
    by simp
  have b: "status (bufferResult (snd (mount example_env example_props))) = ''pending''"
    unfolding mount_example
    by (simp add: render_defs)
  have c: "status (bufferResult (snd example_failed)) = ''failure''"
    unfolding example_failed_state
    by (simp add: render_defs)
  have d: "\<not> changes_bytes_key (Settle DocumentStage 2 (Resolved 20)) (fst example_failed)"
    by simp
  from downstream_blocked_while_bytes_not_ready [OF a, of "Settle DocumentStage 2 (Resolved 20)"] b
    downstream_blocked_while_bytes_not_ready [OF example_failed_def,
      of "Settle DocumentStage 2 (Resolved 20)"] c d
  show ?thesis by simp
qed

text \<open>
  C2 as stated fails: the claim keeps the two stages blocked until the dependency key of
  the pending bytes stage changes. Here the bytes stage is pending and the document stage
  blocked; the fetch and then the decoder resolve, the key and the token of the bytes
  stage never change, and the document stage is success.
\<close>

theorem pending_bytes_stage_releases_downstream:
  "status (bufferResult (snd (mount example_env example_props))) = ''pending''
   \<and> blocked (documentStage (snd (mount example_env example_props)))
   \<and> key (bufferStage (snd example_decoded))
       = key (bufferStage (snd (mount example_env example_props)))
   \<and> token (bufferStage (snd example_decoded))
       = token (bufferStage (snd (mount example_env example_props)))
   \<and> state (documentStage (snd example_decoded)) = Success 20
   \<and> \<not> blocked (pageStage (snd example_decoded))"
  unfolding example_decoded_state mount_example
  by (simp add: blocked_def render_defs)

lemma synced_same_bytes_key:
  assumes "synced p h" and "bytes_key p' = bytes_key p"
  shows "bufferStage (fst (Byblos e p' h)) = bufferStage h"
    and "documentStage (fst (Byblos e p' h)) = documentStage h"
proof -
  from assms show b: "bufferStage (fst (Byblos e p' h)) = bufferStage h"
    by (simp add: Byblos_bufferStage synced_def run_same_key)
  then have "bufferResult (fst (Byblos e p' h)) = bufferResult h"
    by (simp add: bufferResult_def)
  with assms(1) show "documentStage (fst (Byblos e p' h)) = documentStage h"
    by (simp add: Byblos_documentStage synced_def run_same_key)
qed

text \<open>
  C3. If only the page index changes while the document stage is success and the source
  type, the source value and the fetch options are unchanged, then only the page stage
  restarts: the bytes stage and the document stage are unchanged (no new run, the same
  stage results), and the page stage starts a run that requests the new page.
\<close>

theorem page_change_restarts_page_stage_only:
  assumes "(p, h) = steps e evs (mount e p0)"
    and "res (documentResult h) = Success d"
    and "bytes_key p' = bytes_key p"
    and "page p' \<noteq> page p"
  shows "bufferStage (snd (step e (SetProps p') (p, h))) = bufferStage h
         \<and> documentStage (snd (step e (SetProps p') (p, h))) = documentStage h
         \<and> pageStage (snd (step e (SetProps p') (p, h)))
             = \<lparr>key = Some (documentResult h, page p'), token = token (pageStage h) + 1,
                state = Pending,
                inflight = Some (Request (GetPage (JObject d) (nullish (page p') 1)))\<rparr>"
proof -
  have "pipeline_inv (p, h)" using assms(1) reachable_inv [of e evs p0] by simp
  then have sy: "synced p h" by (simp add: pipeline_inv_def)
  note same = synced_same_bytes_key [OF sy assms(3), of e]
  from same(2) have dr: "documentResult (fst (Byblos e p' h)) = documentResult h"
    by (simp add: documentResult_def)
  from sy assms(4) have nk: "key (pageStage h) \<noteq> Some (documentResult h, page p')"
    by (simp add: synced_def)
  from assms(2) have pp: "page_producer (documentResult h) (page p')
      = Request (GetPage (JObject d) (nullish (page p') 1))"
    by (simp add: page_producer_def status_success_iff data_Success)
  have "pageStage (fst (Byblos e p' h))
        = run (page_producer (documentResult h) (page p')) (documentResult h, page p') (pageStage h)"
    by (simp add: Byblos_pageStage dr)
  with nk pp have "pageStage (fst (Byblos e p' h))
        = \<lparr>key = Some (documentResult h, page p'), token = token (pageStage h) + 1,
                state = Pending,
                inflight = Some (Request (GetPage (JObject d) (nullish (page p') 1)))\<rparr>"
    by (simp add: run_new_key)
  with same show ?thesis by simp
qed

theorem page_change_restarts_page_stage_only_witness:
  "bufferStage (snd (step example_env (SetProps (example_props\<lparr>page := Some 2\<rparr>)) example_decoded))
     = bufferStage (snd example_decoded)
   \<and> documentStage (snd (step example_env (SetProps (example_props\<lparr>page := Some 2\<rparr>)) example_decoded))
     = documentStage (snd example_decoded)
   \<and> pageStage (snd (step example_env (SetProps (example_props\<lparr>page := Some 2\<rparr>)) example_decoded))
     = \<lparr>key = Some (\<lparr>gen = 2, res = Success 20\<rparr>, Some 2), token = 4, state = Pending,
        inflight = Some (Request (GetPage (JObject 20) 2))\<rparr>"
proof -
  have a: "(fst example_decoded, snd example_decoded)
           = steps example_env [Settle BytesStage 1 (Resolved 10), Settle DocumentStage 2 (Resolved 20)]
              (mount example_env example_props)"
    by (simp add: example_decoded_def)
  have b: "res (documentResult (snd example_decoded)) = Success 20"
    unfolding example_decoded_state
    by (simp add: render_defs)
  have p: "fst example_decoded = example_props"
    by (simp add: example_decoded_state)
  have c: "bytes_key (example_props\<lparr>page := Some 2\<rparr>) = bytes_key (fst example_decoded)"
    by (simp add: p bytes_key_def)
  have d: "page (example_props\<lparr>page := Some 2\<rparr>) \<noteq> page (fst example_decoded)"
    by (simp add: p example_props_def)
  have t: "token (pageStage (snd example_decoded)) = 3"
    and r: "documentResult (snd example_decoded) = \<lparr>gen = 2, res = Success 20\<rparr>"
    unfolding example_decoded_state
    by (simp_all add: render_defs)
  from page_change_restarts_page_stage_only [OF a b c d] t r
  show ?thesis by (simp add: nullish_def)
qed

section \<open>Callbacks\<close>

lemma step_pass:
  "step e ev (p, h) = (next_props ev p, fst (Byblos e (next_props ev p) (before_pass ev h)))"
  by (cases ev) simp_all

lemma step_rendering_pass:
  "step_rendering e ev (p, h) = snd (Byblos e (next_props ev p) (before_pass ev h))"
  by (cases ev) simp_all

lemma before_pass_effects:
  "documentEffect (before_pass ev h) = documentEffect h"
  "pageEffect (before_pass ev h) = pageEffect h"
  "loadingEffect (before_pass ev h) = loadingEffect h"
  "successEffect (before_pass ev h) = successEffect h"
  "failureEffect (before_pass ev h) = failureEffect h"
  "renderEffect (before_pass ev h) = renderEffect h"
  "canvasRef (before_pass ev h) = canvasRef h"
  by (cases ev; simp add: settle_def split: stage.splits)+

lemma Byblos_calls:
  "calls (snd (Byblos e p h)) =
     (if effect_due (documentEffect h) (documentResult (fst (Byblos e p h)), onDocumentSuccess p)
      then document_success_effect (documentResult (fst (Byblos e p h))) (onDocumentSuccess p)
      else [])
     @ (if effect_due (pageEffect h) (pageResult (fst (Byblos e p h)), onPageSuccess p)
        then page_success_effect (pageResult (fst (Byblos e p h))) (onPageSuccess p) else [])
     @ (if effect_due (loadingEffect h)
             (onLoading p, loading (bufferResult (fst (Byblos e p h)))
                (documentResult (fst (Byblos e p h))) (pageResult (fst (Byblos e p h))))
        then loading_effect
               (loading (bufferResult (fst (Byblos e p h)))
                  (documentResult (fst (Byblos e p h))) (pageResult (fst (Byblos e p h))))
               (onLoading p)
        else [])
     @ (if effect_due (successEffect h) (onSuccess p, success (pageResult (fst (Byblos e p h))))
        then success_effect (success (pageResult (fst (Byblos e p h)))) (onSuccess p) else [])
     @ (if effect_due (failureEffect h)
             (onFailure p, error (bufferResult (fst (Byblos e p h)))
                (documentResult (fst (Byblos e p h))) (pageResult (fst (Byblos e p h))))
        then failure_effect
               (error (bufferResult (fst (Byblos e p h)))
                  (documentResult (fst (Byblos e p h))) (pageResult (fst (Byblos e p h))))
               (onFailure p)
        else [])"
  by (simp add: Byblos_def useFetch_def Let_def split_def bufferResult_def documentResult_def
      pageResult_def)

lemma filter_document_effects:
  "filter is_document_call (document_success_effect r cb) = document_success_effect r cb"
  "filter is_document_call (page_success_effect r cb) = []"
  "filter is_document_call (loading_effect b cb) = []"
  "filter is_document_call (success_effect b cb) = []"
  "filter is_document_call (failure_effect x cb) = []"
  by (simp_all add: document_success_effect_def page_success_effect_def loading_effect_def
      success_effect_def failure_effect_def split: option.splits)

lemma filter_page_effects:
  "filter is_page_call (document_success_effect r cb) = []"
  "filter is_page_call (page_success_effect r cb) = page_success_effect r cb"
  "filter is_page_call (loading_effect b cb) = []"
  "filter is_page_call (success_effect b cb) = []"
  "filter is_page_call (failure_effect x cb) = []"
  by (simp_all add: document_success_effect_def page_success_effect_def loading_effect_def
      success_effect_def failure_effect_def split: option.splits)

lemma filter_success_effects:
  "filter is_success_call (document_success_effect r cb) = []"
  "filter is_success_call (page_success_effect r cb) = []"
  "filter is_success_call (loading_effect b cb) = []"
  "filter is_success_call (success_effect b cb) = success_effect b cb"
  "filter is_success_call (failure_effect x cb) = []"
  by (simp_all add: document_success_effect_def page_success_effect_def loading_effect_def
      success_effect_def failure_effect_def split: option.splits)


lemma document_calls_of_pass:
  "filter is_document_call (calls (snd (Byblos e p h))) =
     (if effect_due (documentEffect h) (documentResult (fst (Byblos e p h)), onDocumentSuccess p)
      then document_success_effect (documentResult (fst (Byblos e p h))) (onDocumentSuccess p)
      else [])"
  by (simp add: Byblos_calls filter_document_effects)

lemma page_calls_of_pass:
  "filter is_page_call (calls (snd (Byblos e p h))) =
     (if effect_due (pageEffect h) (pageResult (fst (Byblos e p h)), onPageSuccess p)
      then page_success_effect (pageResult (fst (Byblos e p h))) (onPageSuccess p)
      else [])"
  by (simp add: Byblos_calls filter_page_effects)

lemma success_calls_of_pass:
  "filter is_success_call (calls (snd (Byblos e p h))) =
     (if effect_due (successEffect h) (onSuccess p, success (pageResult (fst (Byblos e p h))))
      then success_effect (success (pageResult (fst (Byblos e p h)))) (onSuccess p)
      else [])"
  by (simp add: Byblos_calls filter_success_effects)


lemma reachable_synced:
  assumes "s = steps e evs (mount e p0)"
  shows "synced (fst s) (snd s)"
  using assms reachable_inv [of e evs p0] by (simp add: pipeline_inv_def)

lemma step_fst: "fst (step e ev s) = next_props ev (fst s)"
  by (cases s) (simp add: step_pass)

lemma step_snd: "snd (step e ev s) = fst (Byblos e (next_props ev (fst s)) (before_pass ev (snd s)))"
  by (cases s) (simp add: step_pass)

lemma step_rendering_eq:
  "step_rendering e ev s = snd (Byblos e (next_props ev (fst s)) (before_pass ev (snd s)))"
  by (cases s) (simp add: step_rendering_pass)

lemma document_calls_of_step:
  assumes "synced (fst s) (snd s)"
  shows "filter is_document_call (calls (step_rendering e ev s)) =
     (if (documentResult (snd (step e ev s)), onDocumentSuccess (fst (step e ev s)))
          \<noteq> (documentResult (snd s), onDocumentSuccess (fst s))
      then document_success_effect (documentResult (snd (step e ev s)))
             (onDocumentSuccess (fst (step e ev s)))
      else [])"
proof -
  from assms have "documentEffect (before_pass ev (snd s))
                   = Some (documentResult (snd s), onDocumentSuccess (fst s))"
    by (simp add: before_pass_effects synced_def)
  then show ?thesis
    by (simp add: step_rendering_eq step_fst step_snd document_calls_of_pass effect_due_def)
qed

lemma page_calls_of_step:
  assumes "synced (fst s) (snd s)"
  shows "filter is_page_call (calls (step_rendering e ev s)) =
     (if (pageResult (snd (step e ev s)), onPageSuccess (fst (step e ev s)))
          \<noteq> (pageResult (snd s), onPageSuccess (fst s))
      then page_success_effect (pageResult (snd (step e ev s)))
             (onPageSuccess (fst (step e ev s)))
      else [])"
proof -
  from assms have "pageEffect (before_pass ev (snd s))
                   = Some (pageResult (snd s), onPageSuccess (fst s))"
    by (simp add: before_pass_effects synced_def)
  then show ?thesis
    by (simp add: step_rendering_eq step_fst step_snd page_calls_of_pass effect_due_def)
qed

lemma success_calls_of_step:
  assumes "synced (fst s) (snd s)"
  shows "filter is_success_call (calls (step_rendering e ev s)) =
     (if (onSuccess (fst (step e ev s)), success (pageResult (snd (step e ev s))))
          \<noteq> (onSuccess (fst s), success (pageResult (snd s)))
      then success_effect (success (pageResult (snd (step e ev s))))
             (onSuccess (fst (step e ev s)))
      else [])"
proof -
  from assms have "successEffect (before_pass ev (snd s))
                   = Some (onSuccess (fst s), success (pageResult (snd s)))"
    by (simp add: before_pass_effects synced_def)
  then show ?thesis
    by (simp add: step_rendering_eq step_fst step_snd success_calls_of_pass effect_due_def)
qed


text \<open>
  C6, as amended. In a render pass, each of the callbacks \<open>onDocumentSuccess\<close>,
  \<open>onPageSuccess\<close> and \<open>onSuccess\<close> is invoked when its stage is success and the
  dependencies of its effect have changed since the pass before: the result object of the
  stage (for \<open>onSuccess\<close>, the flag that the page stage is success) or the callback prop
  itself. It is then invoked exactly once, and it is not invoked while both the stage
  result and the callback prop are unchanged across render passes.
\<close>

theorem success_callbacks_once_per_change:
  assumes "s = steps e evs (mount e p0)" and "s' = step e ev s" and "r = step_rendering e ev s"
  shows "(documentResult (snd s') = documentResult (snd s)
            \<and> onDocumentSuccess (fst s') = onDocumentSuccess (fst s)
          \<longrightarrow> filter is_document_call (calls r) = [])
       \<and> ((documentResult (snd s') \<noteq> documentResult (snd s)
             \<or> onDocumentSuccess (fst s') \<noteq> onDocumentSuccess (fst s))
            \<and> res (documentResult (snd s')) = Success d \<and> onDocumentSuccess (fst s') = Some f
          \<longrightarrow> filter is_document_call (calls r) = [OnDocumentSuccess f (JObject d)])
       \<and> (pageResult (snd s') = pageResult (snd s)
            \<and> onPageSuccess (fst s') = onPageSuccess (fst s)
          \<longrightarrow> filter is_page_call (calls r) = [])
       \<and> ((pageResult (snd s') \<noteq> pageResult (snd s)
             \<or> onPageSuccess (fst s') \<noteq> onPageSuccess (fst s))
            \<and> res (pageResult (snd s')) = Success g \<and> onPageSuccess (fst s') = Some f'
          \<longrightarrow> filter is_page_call (calls r) = [OnPageSuccess f' (JObject g)])
       \<and> (success (pageResult (snd s')) = success (pageResult (snd s))
            \<and> onSuccess (fst s') = onSuccess (fst s)
          \<longrightarrow> filter is_success_call (calls r) = [])
       \<and> ((success (pageResult (snd s')) \<noteq> success (pageResult (snd s))
             \<or> onSuccess (fst s') \<noteq> onSuccess (fst s))
            \<and> success (pageResult (snd s')) \<and> onSuccess (fst s') = Some f''
          \<longrightarrow> filter is_success_call (calls r) = [OnSuccess f''])"
proof -
  have sy: "synced (fst s) (snd s)" using assms(1) by (rule reachable_synced)
  have d: "filter is_document_call (calls r) =
     (if (documentResult (snd s'), onDocumentSuccess (fst s'))
          \<noteq> (documentResult (snd s), onDocumentSuccess (fst s))
      then document_success_effect (documentResult (snd s')) (onDocumentSuccess (fst s'))
      else [])"
    unfolding assms(2,3) by (rule document_calls_of_step [OF sy])
  have g: "filter is_page_call (calls r) =
     (if (pageResult (snd s'), onPageSuccess (fst s'))
          \<noteq> (pageResult (snd s), onPageSuccess (fst s))
      then page_success_effect (pageResult (snd s')) (onPageSuccess (fst s'))
      else [])"
    unfolding assms(2,3) by (rule page_calls_of_step [OF sy])
  have u: "filter is_success_call (calls r) =
     (if (onSuccess (fst s'), success (pageResult (snd s')))
          \<noteq> (onSuccess (fst s), success (pageResult (snd s)))
      then success_effect (success (pageResult (snd s'))) (onSuccess (fst s'))
      else [])"
    unfolding assms(2,3) by (rule success_calls_of_step [OF sy])
  have d1: "documentResult (snd s') = documentResult (snd s)
            \<and> onDocumentSuccess (fst s') = onDocumentSuccess (fst s)
          \<longrightarrow> filter is_document_call (calls r) = []"
    by (simp add: d)
  have d2: "(documentResult (snd s') \<noteq> documentResult (snd s)
             \<or> onDocumentSuccess (fst s') \<noteq> onDocumentSuccess (fst s))
            \<and> res (documentResult (snd s')) = Success d \<and> onDocumentSuccess (fst s') = Some f
          \<longrightarrow> filter is_document_call (calls r) = [OnDocumentSuccess f (JObject d)]"
    by (auto simp add: d document_success_effect_def status_success_iff data_Success)
  have g1: "pageResult (snd s') = pageResult (snd s)
            \<and> onPageSuccess (fst s') = onPageSuccess (fst s)
          \<longrightarrow> filter is_page_call (calls r) = []"
    by (simp add: g)
  have g2: "(pageResult (snd s') \<noteq> pageResult (snd s)
             \<or> onPageSuccess (fst s') \<noteq> onPageSuccess (fst s))
            \<and> res (pageResult (snd s')) = Success g \<and> onPageSuccess (fst s') = Some f'
          \<longrightarrow> filter is_page_call (calls r) = [OnPageSuccess f' (JObject g)]"
    by (auto simp add: g page_success_effect_def status_success_iff data_Success)
  have u1: "success (pageResult (snd s')) = success (pageResult (snd s))
            \<and> onSuccess (fst s') = onSuccess (fst s)
          \<longrightarrow> filter is_success_call (calls r) = []"
    by (simp add: u)
  have u2: "(success (pageResult (snd s')) \<noteq> success (pageResult (snd s))
             \<or> onSuccess (fst s') \<noteq> onSuccess (fst s))
            \<and> success (pageResult (snd s')) \<and> onSuccess (fst s') = Some f''
          \<longrightarrow> filter is_success_call (calls r) = [OnSuccess f'']"
    by (auto simp add: u success_effect_def)
  from d1 d2 g1 g2 u1 u2 show ?thesis by blast
qed

theorem success_callbacks_once_per_change_witness:
  "filter is_document_call
     (calls (step_rendering example_env (Settle DocumentStage 2 (Resolved 20)) example_fetched))
     = [OnDocumentSuccess 4 (JObject 20)]
   \<and> filter is_document_call
     (calls (step_rendering example_env (Settle PageStage 3 (Resolved 30)) example_decoded)) = []
   \<and> filter is_page_call
     (calls (step_rendering example_env (Settle PageStage 3 (Resolved 30)) example_decoded))
     = [OnPageSuccess 5 (JObject 30)]
   \<and> filter is_success_call
     (calls (step_rendering example_env (Settle PageStage 3 (Resolved 30)) example_decoded))
     = [OnSuccess 2]
   \<and> filter is_page_call
     (calls (step_rendering example_env (SetProps example_props) example_drawn)) = []
   \<and> filter is_success_call
     (calls (step_rendering example_env (SetProps example_props) example_drawn)) = []"
proof -
  let ?doc = "Settle DocumentStage 2 (Resolved 20)"
  let ?page = "Settle PageStage 3 (Resolved 30)"
  let ?again = "SetProps example_props"
  have g: "onDocumentSuccess example_props = Some 4" "onPageSuccess example_props = Some 5"
    "onSuccess example_props = Some 2"
    by (simp_all add: example_props_def)
  have p: "fst example_fetched = example_props" "fst example_decoded = example_props"
    "fst example_drawn = example_props"
    by (simp_all add: example_fetched_state example_decoded_state example_drawn_state)
  have a1: "documentResult (snd (step example_env ?doc example_fetched))
            \<noteq> documentResult (snd example_fetched)"
    and a2: "res (documentResult (snd (step example_env ?doc example_fetched))) = Success 20"
    unfolding example_fetched_state
    by (simp_all add: render_defs)
  have first: "filter is_document_call (calls (step_rendering example_env ?doc example_fetched))
               = [OnDocumentSuccess 4 (JObject 20)]"
    using success_callbacks_once_per_change [OF example_fetched_def refl refl,
        of ?doc 20 4 30 5 2] a1 a2 g p
    by (simp add: step_fst)
  have b1: "documentResult (snd (step example_env ?page example_decoded))
            = documentResult (snd example_decoded)"
    and b2: "pageResult (snd (step example_env ?page example_decoded))
             \<noteq> pageResult (snd example_decoded)"
    and b3: "res (pageResult (snd (step example_env ?page example_decoded))) = Success 30"
    and b4: "success (pageResult (snd (step example_env ?page example_decoded)))"
    and b5: "\<not> success (pageResult (snd example_decoded))"
    unfolding example_decoded_state
    by (simp_all add: render_defs)
  have second: "filter is_document_call
        (calls (step_rendering example_env ?page example_decoded)) = []
     \<and> filter is_page_call (calls (step_rendering example_env ?page example_decoded))
        = [OnPageSuccess 5 (JObject 30)]
     \<and> filter is_success_call (calls (step_rendering example_env ?page example_decoded))
        = [OnSuccess 2]"
    using success_callbacks_once_per_change [OF example_decoded_def refl refl,
        of ?page 20 4 30 5 2] b1 b2 b3 b4 b5 g p
    by (simp add: step_fst)
  have d: "example_drawn
           = steps example_env
               [Settle BytesStage 1 (Resolved 10), Settle DocumentStage 2 (Resolved 20), ?page]
               (mount example_env example_props)"
    by (simp add: example_drawn_def example_decoded_def)
  have c1: "pageResult (snd (step example_env ?again example_drawn))
            = pageResult (snd example_drawn)"
    unfolding example_drawn_state
    by (simp add: render_defs)
  have third: "filter is_page_call (calls (step_rendering example_env ?again example_drawn)) = []
     \<and> filter is_success_call (calls (step_rendering example_env ?again example_drawn)) = []"
    using success_callbacks_once_per_change [OF d refl refl, of ?again 20 4 30 5 2] c1 p
    by (simp add: step_fst)
  from first second third show ?thesis by simp
qed

text \<open>
  C6 as stated fails: the claim is that a callback is not invoked again while the stage
  result is unchanged across render passes. Here the document stage has become success
  and \<open>onDocumentSuccess\<close> has been invoked; the parent then renders the component with
  another function as \<open>onDocumentSuccess\<close>, the stage result of the document stage is the
  same object, and the callback is invoked again.
\<close>

theorem new_callback_is_invoked_again:
  "example_decoded = step example_env (Settle DocumentStage 2 (Resolved 20)) example_fetched
   \<and> filter is_document_call
        (calls (step_rendering example_env (Settle DocumentStage 2 (Resolved 20))
           example_fetched))
      = [OnDocumentSuccess 4 (JObject 20)]
   \<and> res (documentResult (snd example_decoded)) = Success 20
   \<and> documentResult
        (snd (step example_env (SetProps (example_props\<lparr>onDocumentSuccess := Some 44\<rparr>))
           example_decoded))
      = documentResult (snd example_decoded)
   \<and> filter is_document_call
        (calls (step_rendering example_env
           (SetProps (example_props\<lparr>onDocumentSuccess := Some 44\<rparr>)) example_decoded))
      = [OnDocumentSuccess 44 (JObject 20)]"
  unfolding example_decoded_state example_fetched_state
  by (simp add: render_defs)

section \<open>The render sink\<close>

lemma Byblos_canvasRef:
  "canvasRef (fst (Byblos e p h)) =
     (if effect_due (renderEffect h) (pageResult (fst (Byblos e p h)), scale p)
      then render_effect (getViewport e)
             (commit_canvas e (shown (snd (Byblos e p h))) (canvasRef h))
             (pageResult (fst (Byblos e p h))) (scale p)
      else commit_canvas e (shown (snd (Byblos e p h))) (canvasRef h))"
  by (simp add: Byblos_def useFetch_def Let_def split_def pageResult_def)

lemma commit_canvas_mounted:
  "commit_canvas e CanvasElement cr = Some (mounted_canvas e cr)"
  by (simp add: commit_canvas_def mounted_canvas_def split: option.splits)

lemma commit_canvas_unmounted: "v \<noteq> CanvasElement \<Longrightarrow> commit_canvas e v cr = None"
  by (cases v) (simp_all add: commit_canvas_def)

lemma render_effect_None: "render_effect gv None r sc = None"
  by (simp add: render_effect_def)

lemma render_effect_draws:
  assumes "res r = Success d" and "context2d cv = Some ctx"
  shows "render_effect gv (Some cv) r sc =
     Some (cv\<lparr>height := stored_size 150 (vheight (gv (JObject d) (nullish sc 1))),
               width := stored_size 300 (vwidth (gv (JObject d) (nullish sc 1))),
               draws := draws cv @
                 [\<lparr>drawPage = JObject d, drawContext = ctx,
                   drawViewport = gv (JObject d) (nullish sc 1),
                   surfaceHeight = stored_size 150 (vheight (gv (JObject d) (nullish sc 1))),
                   surfaceWidth = stored_size 300 (vwidth (gv (JObject d) (nullish sc 1)))\<rparr>]\<rparr>)"
  using assms
  by (simp add: render_effect_def render_call_def set_height_def set_width_def stored_size_def
      status_success_iff data_Success Let_def)

lemma render_effect_no_context:
  "context2d cv = None \<Longrightarrow> render_effect gv (Some cv) r sc = Some cv"
  by (simp add: render_effect_def Let_def)

text \<open>
  A number from 0 up to, not including, \<open>2 ^ 31\<close> is stored without its fraction.
\<close>

lemma stored_size_in_range:
  assumes "0 \<le> x" and "x < 2147483648"
  shows "unat (stored_size dflt x) = nat \<lfloor>x\<rfloor>"
proof -
  from assms have f0: "0 \<le> \<lfloor>x\<rfloor>" by simp
  from assms have f1: "\<lfloor>x\<rfloor> < 2147483648" by linarith
  from f0 f1 have m: "\<lfloor>x\<rfloor> mod 2 ^ 32 = \<lfloor>x\<rfloor>" by simp
  from f0 f1 have n: "nat \<lfloor>x\<rfloor> \<le> 2147483647" by linarith
  then have "nat \<lfloor>x\<rfloor> < 2 ^ LENGTH(31)" by simp
  then have "unat (of_nat (nat \<lfloor>x\<rfloor>) :: 31 word) = nat \<lfloor>x\<rfloor>"
    by (simp add: unat_of_nat)
  with assms m n show ?thesis
    by (simp add: stored_size_def reflected_def to_unsigned_long_def integer_part_def)
qed

lemma canvasRef_of_step:
  assumes "synced (fst s) (snd s)"
  shows "canvasRef (snd (step e ev s)) =
     (if (pageResult (snd (step e ev s)), scale (fst (step e ev s)))
          \<noteq> (pageResult (snd s), scale (fst s))
      then render_effect (getViewport e)
             (commit_canvas e (shown (step_rendering e ev s)) (canvasRef (snd s)))
             (pageResult (snd (step e ev s))) (scale (fst (step e ev s)))
      else commit_canvas e (shown (step_rendering e ev s)) (canvasRef (snd s)))"
proof -
  from assms have "renderEffect (before_pass ev (snd s)) = Some (pageResult (snd s), scale (fst s))"
    by (simp add: before_pass_effects synced_def)
  then show ?thesis
    by (simp add: step_rendering_eq step_fst step_snd Byblos_canvasRef effect_due_def
        before_pass_effects)
qed

text \<open>
  C8, as amended. In a render pass that returns the canvas, with the page stage success
  and the canvas element giving a 2D context, a change of the page result or of the scale
  makes the render effect compute the viewport of the page at the scale (at 1 when the
  scale prop is omitted), assign the height and the width of the viewport to the canvas,
  and then issue exactly one draw call on the canvas so sized. The canvas stores an
  assigned number as an integer: a height or width of the viewport from 0 up to
  \<open>2 ^ 31\<close> is stored without its fraction, so exactly when it is whole. With the page
  result and the scale unchanged no draw call is issued. When the canvas element gives no
  2D context, the effect neither resizes the canvas nor draws. In a pass that returns a
  fallback no canvas is mounted, and nothing is drawn.
\<close>

theorem render_sink_draws_once_per_change:
  assumes "s = steps e evs (mount e p0)" and "s' = step e ev s" and "r = step_rendering e ev s"
    and "cv = mounted_canvas e (canvasRef (snd s))"
    and "vp = getViewport e (JObject d) (nullish (scale (fst s')) 1)"
  shows "(shown r = CanvasElement \<and> res (pageResult (snd s')) = Success d
            \<and> context2d cv = Some ctx
            \<and> (pageResult (snd s') \<noteq> pageResult (snd s) \<or> scale (fst s') \<noteq> scale (fst s))
          \<longrightarrow> canvasRef (snd s')
              = Some (cv\<lparr>height := stored_size 150 (vheight vp),
                        width := stored_size 300 (vwidth vp),
                        draws := draws cv @
                          [\<lparr>drawPage = JObject d, drawContext = ctx, drawViewport = vp,
                            surfaceHeight = stored_size 150 (vheight vp),
                            surfaceWidth = stored_size 300 (vwidth vp)\<rparr>]\<rparr>))
       \<and> (0 \<le> vheight vp \<and> vheight vp < 2147483648
          \<longrightarrow> unat (stored_size 150 (vheight vp)) = nat \<lfloor>vheight vp\<rfloor>)
       \<and> (0 \<le> vwidth vp \<and> vwidth vp < 2147483648
          \<longrightarrow> unat (stored_size 300 (vwidth vp)) = nat \<lfloor>vwidth vp\<rfloor>)
       \<and> (shown r = CanvasElement \<and> context2d cv = None
          \<longrightarrow> canvasRef (snd s') = Some cv)
       \<and> (shown r = CanvasElement
            \<and> pageResult (snd s') = pageResult (snd s) \<and> scale (fst s') = scale (fst s)
          \<longrightarrow> canvasRef (snd s') = Some cv)
       \<and> (shown r \<noteq> CanvasElement \<longrightarrow> canvasRef (snd s') = None)
       \<and> (scale (fst s') = None \<longrightarrow> vp = getViewport e (JObject d) 1)"
proof -
  have sy: "synced (fst s) (snd s)" using assms(1) by (rule reachable_synced)
  note cr = canvasRef_of_step [OF sy, of e ev, folded assms(2) assms(3)]
  have a: "shown r = CanvasElement \<and> res (pageResult (snd s')) = Success d
            \<and> context2d cv = Some ctx
            \<and> (pageResult (snd s') \<noteq> pageResult (snd s) \<or> scale (fst s') \<noteq> scale (fst s))
          \<longrightarrow> canvasRef (snd s')
              = Some (cv\<lparr>height := stored_size 150 (vheight vp),
                        width := stored_size 300 (vwidth vp),
                        draws := draws cv @
                          [\<lparr>drawPage = JObject d, drawContext = ctx, drawViewport = vp,
                            surfaceHeight = stored_size 150 (vheight vp),
                            surfaceWidth = stored_size 300 (vwidth vp)\<rparr>]\<rparr>)"
    by (auto simp add: cr commit_canvas_mounted render_effect_draws assms(4) assms(5))
  have t1: "0 \<le> vheight vp \<and> vheight vp < 2147483648
          \<longrightarrow> unat (stored_size 150 (vheight vp)) = nat \<lfloor>vheight vp\<rfloor>"
    by (simp add: stored_size_in_range)
  have t2: "0 \<le> vwidth vp \<and> vwidth vp < 2147483648
          \<longrightarrow> unat (stored_size 300 (vwidth vp)) = nat \<lfloor>vwidth vp\<rfloor>"
    by (simp add: stored_size_in_range)
  have n: "shown r = CanvasElement \<and> context2d cv = None
          \<longrightarrow> canvasRef (snd s') = Some cv"
    by (simp add: cr commit_canvas_mounted render_effect_no_context assms(4))
  have b: "shown r = CanvasElement
            \<and> pageResult (snd s') = pageResult (snd s) \<and> scale (fst s') = scale (fst s)
          \<longrightarrow> canvasRef (snd s') = Some cv"
    by (simp add: cr commit_canvas_mounted assms(4))
  have c: "shown r \<noteq> CanvasElement \<longrightarrow> canvasRef (snd s') = None"
    by (simp add: cr commit_canvas_unmounted render_effect_None)
  have d: "scale (fst s') = None \<longrightarrow> vp = getViewport e (JObject d) 1"
    by (simp add: assms(5) nullish_def)
  from a t1 t2 n b c d show ?thesis by blast
qed

theorem render_sink_draws_once_per_change_witness:
  "canvasRef (snd example_drawn)
     = Some \<lparr>height = 800, width = 600, context2d = Some 9,
             draws = [\<lparr>drawPage = JObject 30, drawContext = 9,
                        drawViewport = \<lparr>vheight = 800, vwidth = 600\<rparr>,
                        surfaceHeight = 800, surfaceWidth = 600\<rparr>]\<rparr>
   \<and> canvasRef (snd (step example_env (SetProps example_props) example_drawn))
     = canvasRef (snd example_drawn)
   \<and> canvasRef (snd example_fetched) = None
   \<and> canvasRef (snd (step example_env_no_context (Settle PageStage 3 (Resolved 30))
          example_decoded_no_context))
     = Some \<lparr>height = 150, width = 300, context2d = None, draws = []\<rparr>
   \<and> unat (stored_size 150 841.89) = 841
   \<and> unat (stored_size 300 595.28) = 595"
proof -
  let ?page = "Settle PageStage 3 (Resolved 30)"
  have s1: "example_drawn = step example_env ?page example_decoded"
    by (simp add: example_drawn_def)
  have a1: "shown (step_rendering example_env ?page example_decoded) = CanvasElement"
    and a2: "res (pageResult (snd example_drawn)) = Success 30"
    and a3: "context2d (mounted_canvas example_env (canvasRef (snd example_decoded))) = Some 9"
    and a4: "pageResult (snd example_drawn) \<noteq> pageResult (snd example_decoded)"
    and a5: "mounted_canvas example_env (canvasRef (snd example_decoded))
             = \<lparr>height = 150, width = 300, context2d = Some 9, draws = []\<rparr>"
    and a6: "getViewport example_env (JObject 30) (nullish (scale (fst example_drawn)) 1)
             = \<lparr>vheight = 800, vwidth = 600\<rparr>"
    unfolding example_drawn_state example_decoded_state
    by (simp_all add: mounted_canvas_def render_defs)
  have a7: "stored_size 150 800 = 800" "stored_size 300 600 = 600"
    by (simp_all add: stored_size_def reflected_def to_unsigned_long_def integer_part_def)
  have first: "canvasRef (snd example_drawn)
     = Some \<lparr>height = 800, width = 600, context2d = Some 9,
             draws = [\<lparr>drawPage = JObject 30, drawContext = 9,
                        drawViewport = \<lparr>vheight = 800, vwidth = 600\<rparr>,
                        surfaceHeight = 800, surfaceWidth = 600\<rparr>]\<rparr>"
    using render_sink_draws_once_per_change [OF example_decoded_def s1 refl refl refl, of 30 9]
      a1 a2 a3 a4 a5 a6 a7
    by simp
  have d: "example_drawn
           = steps example_env
               [Settle BytesStage 1 (Resolved 10), Settle DocumentStage 2 (Resolved 20), ?page]
               (mount example_env example_props)"
    by (simp add: example_drawn_def example_decoded_def)
  let ?again = "SetProps example_props"
  have b1: "shown (step_rendering example_env ?again example_drawn) = CanvasElement"
    and b2: "pageResult (snd (step example_env ?again example_drawn)) = pageResult (snd example_drawn)"
    and b3: "scale (fst (step example_env ?again example_drawn)) = scale (fst example_drawn)"
    unfolding example_drawn_state
    by (simp_all add: render_defs)
  have second: "canvasRef (snd (step example_env ?again example_drawn))
                = canvasRef (snd example_drawn)"
    using render_sink_draws_once_per_change [OF d refl refl refl refl, of ?again 30 9]
      b1 b2 b3 first
    by (simp add: mounted_canvas_def)
  let ?bytes = "Settle BytesStage 1 (Resolved 10)"
  have m: "mount example_env example_props = steps example_env [] (mount example_env example_props)"
    by simp
  have f: "example_fetched = step example_env ?bytes (mount example_env example_props)"
    by (simp add: example_fetched_def)
  have c1: "shown (step_rendering example_env ?bytes (mount example_env example_props))
            \<noteq> CanvasElement"
    unfolding mount_example
    by (simp add: render_defs)
  have third: "canvasRef (snd example_fetched) = None"
    using render_sink_draws_once_per_change [OF m f refl refl refl, of 30 9] c1
    by simp
  have n1: "shown (step_rendering example_env_no_context ?page example_decoded_no_context)
            = CanvasElement"
    and n2: "mounted_canvas example_env_no_context (canvasRef (snd example_decoded_no_context))
             = \<lparr>height = 150, width = 300, context2d = None, draws = []\<rparr>"
    unfolding example_decoded_no_context_state
    by (simp_all add: mounted_canvas_def example_env_no_context_def render_defs)
  have fourth: "canvasRef (snd (step example_env_no_context ?page example_decoded_no_context))
     = Some \<lparr>height = 150, width = 300, context2d = None, draws = []\<rparr>"
    using render_sink_draws_once_per_change
        [OF example_decoded_no_context_def refl refl refl refl, of ?page 30 9] n1 n2
    by simp
  have v: "getViewport example_env_a4 (JObject 30)
             (nullish (scale (fst (step example_env_a4 ?page example_decoded_a4))) 1)
           = \<lparr>vheight = 841.89, vwidth = 595.28\<rparr>"
    unfolding example_decoded_a4_state
    by (simp add: example_env_a4_def render_defs)
  have fifth: "unat (stored_size 150 841.89) = 841 \<and> unat (stored_size 300 595.28) = 595"
    using render_sink_draws_once_per_change
        [OF example_decoded_a4_def refl refl refl refl, of ?page 30 9] v
    by simp
  from first second third fourth fifth show ?thesis by simp
qed

text \<open>
  C8 as stated fails, in two ways. The claim is that the canvas is resized to exactly the
  height and width of the viewport and one draw call issued whenever the page stage is
  success and the canvas is mounted. First, the page stage becomes success and the canvas
  is mounted, but \<^verbatim>\<open>getContext('2d')\<close> returns null: the effect returns before it
  resizes the canvas, and it draws nothing. Second, with a 2D context and a page whose
  viewport is 841.89 high and 595.28 wide, the canvas is 841 high and 595 wide after the
  assignment, and the draw call is issued on a canvas of that size.
\<close>

theorem canvas_not_resized_to_exact_viewport:
  "res (pageResult (snd (step example_env_no_context (Settle PageStage 3 (Resolved 30))
          example_decoded_no_context))) = Success 30
   \<and> shown (step_rendering example_env_no_context (Settle PageStage 3 (Resolved 30))
        example_decoded_no_context) = CanvasElement
   \<and> canvasRef (snd (step example_env_no_context (Settle PageStage 3 (Resolved 30))
          example_decoded_no_context))
      = Some \<lparr>height = 150, width = 300, context2d = None, draws = []\<rparr>
   \<and> res (pageResult (snd (step example_env_a4 (Settle PageStage 3 (Resolved 30))
          example_decoded_a4))) = Success 30
   \<and> shown (step_rendering example_env_a4 (Settle PageStage 3 (Resolved 30))
        example_decoded_a4) = CanvasElement
   \<and> canvasRef (snd (step example_env_a4 (Settle PageStage 3 (Resolved 30))
          example_decoded_a4))
      = Some \<lparr>height = 841, width = 595, context2d = Some 9,
              draws = [\<lparr>drawPage = JObject 30, drawContext = 9,
                         drawViewport = \<lparr>vheight = 841.89, vwidth = 595.28\<rparr>,
                         surfaceHeight = 841, surfaceWidth = 595\<rparr>]\<rparr>
   \<and> real (unat (841 :: 31 word)) \<noteq> 841.89
   \<and> real (unat (595 :: 31 word)) \<noteq> 595.28"
  unfolding example_decoded_no_context_state example_decoded_a4_state
  by (simp add: example_env_no_context_def example_env_a4_def render_defs)

section \<open>Failures\<close>





lemma key_before_pass:
  "key (bufferStage (before_pass ev h)) = key (bufferStage h)"
  "key (documentStage (before_pass ev h)) = key (documentStage h)"
  "key (pageStage (before_pass ev h)) = key (pageStage h)"
  by (cases ev; simp add: settle_def key_complete split: stage.splits)+














end
